theory Spec2Isabelle
  imports Main "HOL-Library.Word"
begin

unbundle bit_operations_syntax

section \<open>The LC-3 simulator of LC3.c\<close>

text \<open>
  The C program keeps the whole machine in global variables of type \<open>int16_t\<close>.
  They are modelled as \<open>16 word\<close>.  Every operand of a C operator is first
  promoted to \<open>int\<close>, taken to be 32 bits wide (\<open>32 word\<close>), so the
  decoding macros, which shift, are written over \<open>32 word\<close>: \<open>scast\<close> is
  the promotion of an \<open>int16_t\<close>, \<open>push_bit\<close> is \<open><<\<close> on the two's-complement
  representation, \<open>signed_drop_bit\<close> is \<open>>>\<close> on a signed \<open>int\<close>
  (arithmetic shift), and \<open>ucast\<close> to \<open>16 word\<close> is the conversion back to
  \<open>int16_t\<close> on assignment (reduction modulo \<open>2^16\<close>).  This is what GCC and
  Clang compile these operations to; ISO C leaves the left shift of a negative value
  undefined and the other two implementation-defined.  Sums, \<open>&\<close> and
  \<open>~\<close> of two \<open>int16_t\<close> values that are stored back into an \<open>int16_t\<close>
  are written directly on \<open>16 word\<close>, where they wrap in the same way.
\<close>

subsection \<open>Decoding macros\<close>

definition OPCODE :: "16 word \<Rightarrow> 32 word" where
  "OPCODE instr = signed_drop_bit 12 (scast instr) AND 0x000F"

definition REG1 :: "16 word \<Rightarrow> 32 word" where
  "REG1 instr = signed_drop_bit 9 (scast instr) AND 0x0007"

definition REG2 :: "16 word \<Rightarrow> 32 word" where
  "REG2 instr = signed_drop_bit 6 (scast instr) AND 0x0007"

definition REG3 :: "16 word \<Rightarrow> 32 word" where
  "REG3 instr = scast instr AND 0x0007"

definition IMMBIT :: "16 word \<Rightarrow> 32 word" where
  "IMMBIT instr = signed_drop_bit 5 (scast instr AND 0x0020)"

definition IMMVAL :: "16 word \<Rightarrow> 32 word" where
  "IMMVAL instr = signed_drop_bit 27 (push_bit 27 (scast instr))"

definition PCOFFSET11 :: "16 word \<Rightarrow> 32 word" where
  "PCOFFSET11 instr = signed_drop_bit 21 (push_bit 21 (scast instr))"

definition PCOFFSET9 :: "16 word \<Rightarrow> 32 word" where
  "PCOFFSET9 instr = signed_drop_bit 23 (push_bit 23 (scast instr))"

definition PCOFFSET6 :: "16 word \<Rightarrow> 32 word" where
  "PCOFFSET6 instr = signed_drop_bit 26 (push_bit 26 (scast instr))"

definition BRN :: "16 word \<Rightarrow> 32 word" where
  "BRN instr = signed_drop_bit 11 (scast instr) AND 0x0001"

definition BRZ :: "16 word \<Rightarrow> 32 word" where
  "BRZ instr = signed_drop_bit 10 (scast instr) AND 0x0001"

definition BRP :: "16 word \<Rightarrow> 32 word" where
  "BRP instr = signed_drop_bit 9 (scast instr) AND 0x0001"

definition TRPVECT8 :: "16 word \<Rightarrow> 32 word" where
  "TRPVECT8 instr = signed_drop_bit 24 (push_bit 24 (scast instr))"

subsection \<open>Constants\<close>

definition REG_COUNT :: int where "REG_COUNT = 8"
definition MEMORY_SIZE :: int where "MEMORY_SIZE = 65536"

definition ADD_OP :: "32 word" where "ADD_OP = 1"
definition AND_OP :: "32 word" where "AND_OP = 5"
definition LD_OP :: "32 word" where "LD_OP = 2"
definition LDI_OP :: "32 word" where "LDI_OP = 10"
definition LDR_OP :: "32 word" where "LDR_OP = 6"
definition BR_OP :: "32 word" where "BR_OP = 0"
definition ST_OP :: "32 word" where "ST_OP = 3"
definition STI_OP :: "32 word" where "STI_OP = 11"
definition STR_OP :: "32 word" where "STR_OP = 7"
definition LEA_OP :: "32 word" where "LEA_OP = 14"
definition JSR_OP :: "32 word" where "JSR_OP = 4"
definition RET_OP :: "32 word" where "RET_OP = 12"
definition TRAP_OP :: "32 word" where "TRAP_OP = 15"

definition DSR :: "16 word" where "DSR = ucast (0xFE04 :: 32 word)"
definition DISPLAY_READY :: "32 word" where "DISPLAY_READY = 0x8000"
definition DISPLAY_SET :: "32 word" where "DISPLAY_SET = 0x0000"
definition DDR :: "16 word" where "DDR = ucast (0xFE06 :: 32 word)"
definition MCR_ADRESS :: "16 word" where "MCR_ADRESS = ucast (0xFFFE :: 32 word)"

definition MCR_POWER :: "16 word \<Rightarrow> 32 word" where
  "MCR_POWER m = signed_drop_bit 15 (scast m AND 0x8000)"

subsection \<open>The machine state\<close>

text \<open>
  What the process does on its streams is recorded in the order it happens:
  \<open>Stdout c\<close> is \<open>printf("%c", c)\<close>, \<open>Stderr opcode pc\<close> is the
  \<open>fprintf(stderr, ...)\<close> of the default case with its two arguments, and
  \<open>Getchar\<close> is one call of \<open>getchar()\<close>, a read of standard input.
\<close>

datatype event = Stdout "8 word" | Stderr "16 word" "16 word" | Getchar

text \<open>
  The global variables.  The arrays \<open>memory[65536]\<close> and \<open>regs[REG_COUNT]\<close>
  have a static size; each is a function on indices, and every access checks the index
  against the declared size (\<open>memory_at\<close>, \<open>regs_at\<close> below).  The bit-fields
  of \<open>psr\<close> and the members of \<open>display\<close> are the fields \<open>psr_...\<close> and
  \<open>display_...\<close>.
\<close>

record machine =
  mcr :: "16 word"
  memory :: "nat \<Rightarrow> 16 word"
  regs :: "nat \<Rightarrow> 16 word"
  pc :: "16 word"
  ir :: "16 word"
  psr_junk :: "13 word"
  psr_p :: "1 word"
  psr_n :: "1 word"
  psr_z :: "1 word"
  display_status :: "16 word"
  display_data :: "16 word"
  io :: "event list"

text \<open>
  Indexing an array outside its bounds is undefined behaviour in C; it is the error
  value here, carrying the offending index.  The index expression is always an
  \<open>int16_t\<close>, promoted to \<open>int\<close>: the index is \<open>sint i\<close>.
\<close>

datatype error = MemoryOutOfBounds int | RegsOutOfBounds int

definition ebind :: "error + 'a \<Rightarrow> ('a \<Rightarrow> error + 'b) \<Rightarrow> error + 'b" where
  "ebind m f = (case m of Inl e \<Rightarrow> Inl e | Inr x \<Rightarrow> f x)"

definition memory_at :: "machine \<Rightarrow> 16 word \<Rightarrow> error + 16 word" where
  "memory_at s i =
     (if 0 \<le> sint i \<and> sint i < MEMORY_SIZE then Inr (memory s (nat (sint i)))
      else Inl (MemoryOutOfBounds (sint i)))"

definition memory_store :: "machine \<Rightarrow> 16 word \<Rightarrow> 16 word \<Rightarrow> error + machine" where
  "memory_store s i v =
     (if 0 \<le> sint i \<and> sint i < MEMORY_SIZE
      then Inr (s\<lparr>memory := (memory s)(nat (sint i) := v)\<rparr>)
      else Inl (MemoryOutOfBounds (sint i)))"

definition regs_at :: "machine \<Rightarrow> 16 word \<Rightarrow> error + 16 word" where
  "regs_at s i =
     (if 0 \<le> sint i \<and> sint i < REG_COUNT then Inr (regs s (nat (sint i)))
      else Inl (RegsOutOfBounds (sint i)))"

definition regs_store :: "machine \<Rightarrow> 16 word \<Rightarrow> 16 word \<Rightarrow> error + machine" where
  "regs_store s i v =
     (if 0 \<le> sint i \<and> sint i < REG_COUNT
      then Inr (s\<lparr>regs := (regs s)(nat (sint i) := v)\<rparr>)
      else Inl (RegsOutOfBounds (sint i)))"

subsection \<open>Initialisation and condition codes\<close>

text \<open>
  Objects with static storage duration start as zero.  \<open>loadFile\<close> reads the object
  file with \<open>fread\<close>; the only globals it assigns are \<open>pc\<close> and cells of
  \<open>memory\<close>, so the state that \<open>init\<close> receives is \<open>loaded m a\<close> for
  some memory contents \<open>m\<close> and start address \<open>a\<close>.
\<close>

definition globals0 :: machine where
  "globals0 = \<lparr>mcr = 0, memory = (\<lambda>_. 0), regs = (\<lambda>_. 0), pc = 0, ir = 0,
     psr_junk = 0, psr_p = 0, psr_n = 0, psr_z = 0,
     display_status = 0, display_data = 0, io = []\<rparr>"

definition loaded :: "(nat \<Rightarrow> 16 word) \<Rightarrow> 16 word \<Rightarrow> machine" where
  "loaded m a = globals0\<lparr>memory := m, pc := a\<rparr>"

definition init :: "machine \<Rightarrow> machine" where
  "init s = s\<lparr>display_status := ucast (0x8000 :: 32 word),
              display_data := ucast (0x0000 :: 32 word),
              psr_z := 1,
              mcr := ucast (0x8000 :: 32 word)\<rparr>"

definition updatePSR_CC :: "16 word \<Rightarrow> machine \<Rightarrow> machine" where
  "updatePSR_CC val s =
     (if sint val < 0 then s\<lparr>psr_z := 0, psr_n := 1, psr_p := 0\<rparr>
      else if sint val = 0 then s\<lparr>psr_z := 1, psr_n := 0, psr_p := 0\<rparr>
      else if 0 < sint val then s\<lparr>psr_z := 0, psr_n := 0, psr_p := 1\<rparr>
      else s)"

subsection \<open>Instruction handlers\<close>

definition addImm :: "machine \<Rightarrow> error + machine" where
  "addImm s =
     (let dest_reg = ucast (REG1 (ir s)) :: 16 word;
          src_reg = ucast (REG2 (ir s)) :: 16 word;
          imm_val = ucast (IMMVAL (ir s)) :: 16 word
      in ebind (regs_at s src_reg) (\<lambda>a.
         ebind (regs_store s dest_reg (a + imm_val)) (\<lambda>s1.
         ebind (regs_at s1 dest_reg) (\<lambda>v. Inr (updatePSR_CC v s1)))))"

definition addRegs :: "machine \<Rightarrow> error + machine" where
  "addRegs s =
     (let dest_reg = ucast (REG1 (ir s)) :: 16 word;
          src_reg1 = ucast (REG2 (ir s)) :: 16 word;
          src_reg2 = ucast (REG3 (ir s)) :: 16 word
      in ebind (regs_at s src_reg1) (\<lambda>a.
         ebind (regs_at s src_reg2) (\<lambda>b.
         ebind (regs_store s dest_reg (a + b)) (\<lambda>s1.
         ebind (regs_at s1 dest_reg) (\<lambda>v. Inr (updatePSR_CC v s1))))))"

definition andImm :: "machine \<Rightarrow> error + machine" where
  "andImm s =
     (let dest_reg = ucast (REG1 (ir s)) :: 16 word;
          src_reg1 = ucast (REG2 (ir s)) :: 16 word;
          imm_val = ucast (IMMVAL (ir s)) :: 16 word
      in ebind (regs_at s src_reg1) (\<lambda>a.
         ebind (regs_store s dest_reg (a AND imm_val)) (\<lambda>s1.
         ebind (regs_at s1 dest_reg) (\<lambda>v. Inr (updatePSR_CC v s1)))))"

definition andRegs :: "machine \<Rightarrow> error + machine" where
  "andRegs s =
     (let dest_reg = ucast (REG1 (ir s)) :: 16 word;
          src_reg1 = ucast (REG2 (ir s)) :: 16 word;
          src_reg2 = ucast (REG3 (ir s)) :: 16 word
      in ebind (regs_at s src_reg1) (\<lambda>a.
         ebind (regs_at s src_reg2) (\<lambda>b.
         ebind (regs_store s dest_reg (a AND b)) (\<lambda>s1.
         ebind (regs_at s1 dest_reg) (\<lambda>v. Inr (updatePSR_CC v s1))))))"

text \<open>The function \<open>not\<close> of the source; \<open>main\<close> never calls it.\<close>

definition not_instr :: "machine \<Rightarrow> error + machine" where
  "not_instr s =
     (let dest_reg = ucast (REG1 (ir s)) :: 16 word;
          src_reg = ucast (REG2 (ir s)) :: 16 word
      in ebind (regs_at s src_reg) (\<lambda>a.
         ebind (regs_store s dest_reg (NOT a)) (\<lambda>s1.
         ebind (regs_at s1 dest_reg) (\<lambda>v. Inr (updatePSR_CC v s1)))))"

definition br :: "machine \<Rightarrow> error + machine" where
  "br s =
     (let n = ucast (BRN (ir s)) :: 16 word;
          z = ucast (BRZ (ir s)) :: 16 word;
          p = ucast (BRP (ir s)) :: 16 word;
          pcoffset = ucast (PCOFFSET9 (ir s)) :: 16 word
      in if ((ucast (psr_n s) AND scast n) OR (ucast (psr_z s) AND scast z)
               OR (ucast (psr_p s) AND scast p)) \<noteq> (0 :: 32 word)
         then Inr (s\<lparr>pc := pc s + pcoffset\<rparr>)
         else Inr s)"

definition ld :: "machine \<Rightarrow> error + machine" where
  "ld s =
     (let dest_reg = ucast (REG1 (ir s)) :: 16 word;
          pcoffset = ucast (PCOFFSET9 (ir s)) :: 16 word;
          src_adress = pc s + pcoffset
      in ebind
           (if src_adress = DSR then regs_store s dest_reg (display_status s)
            else if src_adress = DDR then regs_store s dest_reg (display_data s)
            else if src_adress = MCR_ADRESS then regs_store s dest_reg (mcr s)
            else ebind (memory_at s src_adress) (regs_store s dest_reg))
           (\<lambda>s1. ebind (regs_at s1 dest_reg) (\<lambda>v. Inr (updatePSR_CC v s1))))"

definition ldi :: "machine \<Rightarrow> error + machine" where
  "ldi s =
     (let dest_reg = ucast (REG1 (ir s)) :: 16 word;
          pcoffset = ucast (PCOFFSET9 (ir s)) :: 16 word;
          src_adress1 = pc s + pcoffset
      in ebind
           (if src_adress1 = DSR then Inr (display_status s)
            else if src_adress1 = DDR then Inr (display_data s)
            else if src_adress1 = MCR_ADRESS then Inr (mcr s)
            else memory_at s src_adress1)
           (\<lambda>src_adress2.
         ebind
           (if src_adress2 = DSR then regs_store s dest_reg (display_status s)
            else if src_adress2 = DDR then regs_store s dest_reg (display_data s)
            else if src_adress2 = MCR_ADRESS then regs_store s dest_reg (mcr s)
            else ebind (memory_at s src_adress2) (regs_store s dest_reg))
           (\<lambda>s1. ebind (regs_at s1 dest_reg) (\<lambda>v. Inr (updatePSR_CC v s1)))))"

definition ldr :: "machine \<Rightarrow> error + machine" where
  "ldr s =
     (let dest_reg = ucast (REG1 (ir s)) :: 16 word;
          base_reg = ucast (REG2 (ir s)) :: 16 word;
          pcoffset = ucast (PCOFFSET6 (ir s)) :: 16 word
      in ebind (regs_at s base_reg) (\<lambda>b.
         let scr_adress = b + pcoffset
         in ebind
              (if scr_adress = DSR then regs_store s dest_reg (display_status s)
               else if scr_adress = DDR then regs_store s dest_reg (display_data s)
               else if scr_adress = MCR_ADRESS then regs_store s dest_reg (mcr s)
               else ebind (memory_at s scr_adress) (regs_store s dest_reg))
              (\<lambda>s1. ebind (regs_at s1 dest_reg) (\<lambda>v. Inr (updatePSR_CC v s1)))))"

definition st :: "machine \<Rightarrow> error + machine" where
  "st s =
     (let src_reg = ucast (REG1 (ir s)) :: 16 word;
          pcoffset = ucast (PCOFFSET9 (ir s)) :: 16 word;
          dest_adress = pc s + pcoffset
      in if dest_adress = DSR
         then ebind (regs_at s src_reg) (\<lambda>v. Inr (s\<lparr>display_status := v\<rparr>))
         else if dest_adress = DDR
         then ebind (regs_at s src_reg) (\<lambda>v.
                Inr (s\<lparr>display_data := v, display_status := ucast DISPLAY_SET\<rparr>))
         else if dest_adress = MCR_ADRESS
         then ebind (regs_at s src_reg) (\<lambda>v. Inr (s\<lparr>mcr := v\<rparr>))
         else ebind (regs_at s src_reg) (memory_store s dest_adress))"

definition sti :: "machine \<Rightarrow> error + machine" where
  "sti s =
     (let src_reg = ucast (REG1 (ir s)) :: 16 word;
          pcoffset = ucast (PCOFFSET9 (ir s)) :: 16 word;
          dest_adress1 = pc s + pcoffset
      in ebind
           (if dest_adress1 = DSR then Inr (display_status s)
            else if dest_adress1 = DDR then Inr (display_data s)
            else if dest_adress1 = MCR_ADRESS then Inr (mcr s)
            else memory_at s dest_adress1)
           (\<lambda>dest_adress2.
         if dest_adress2 = DSR
         then ebind (regs_at s src_reg) (\<lambda>v. Inr (s\<lparr>display_status := v\<rparr>))
         else if dest_adress2 = DDR
         then ebind (regs_at s src_reg) (\<lambda>v.
                Inr (s\<lparr>display_data := v, display_status := ucast DISPLAY_SET\<rparr>))
         else if dest_adress2 = MCR_ADRESS
         then ebind (regs_at s src_reg) (\<lambda>v. Inr (s\<lparr>mcr := v\<rparr>))
         else ebind (regs_at s src_reg) (memory_store s dest_adress2)))"

definition str :: "machine \<Rightarrow> error + machine" where
  "str s =
     (let src_reg = ucast (REG1 (ir s)) :: 16 word;
          base_reg = ucast (REG2 (ir s)) :: 16 word;
          pcoffset = ucast (PCOFFSET6 (ir s)) :: 16 word
      in ebind (regs_at s base_reg) (\<lambda>b.
         let dest_adress = b + pcoffset
         in if dest_adress = DSR
            then ebind (regs_at s src_reg) (\<lambda>v. Inr (s\<lparr>display_status := v\<rparr>))
            else if dest_adress = DDR
            then ebind (regs_at s src_reg) (\<lambda>v.
                   Inr (s\<lparr>display_data := v, display_status := ucast DISPLAY_SET\<rparr>))
            else if dest_adress = MCR_ADRESS
            then ebind (regs_at s src_reg) (\<lambda>v. Inr (s\<lparr>mcr := v\<rparr>))
            else ebind (regs_at s src_reg) (memory_store s dest_adress)))"

definition lea :: "machine \<Rightarrow> error + machine" where
  "lea s =
     (let dest_reg = ucast (REG1 (ir s)) :: 16 word;
          pcoffset = ucast (PCOFFSET9 (ir s)) :: 16 word
      in ebind (regs_store s dest_reg (pc s + pcoffset)) (\<lambda>s1.
         ebind (regs_at s1 dest_reg) (\<lambda>v. Inr (updatePSR_CC v s1))))"

definition jsr :: "machine \<Rightarrow> error + machine" where
  "jsr s =
     (let pcoffset = ucast (PCOFFSET11 (ir s)) :: 16 word
      in ebind (regs_store s 7 (pc s)) (\<lambda>s1. Inr (s1\<lparr>pc := pc s1 + pcoffset\<rparr>)))"

definition ret :: "machine \<Rightarrow> error + machine" where
  "ret s = ebind (regs_at s 7) (\<lambda>v. Inr (s\<lparr>pc := v\<rparr>))"

definition trap :: "machine \<Rightarrow> error + machine" where
  "trap s =
     (let vect = ucast (TRPVECT8 (ir s)) :: 16 word
      in ebind (regs_store s 7 (pc s)) (\<lambda>s1.
         ebind (memory_at s1 vect) (\<lambda>v. Inr (s1\<lparr>pc := v\<rparr>))))"

subsection \<open>The fetch-execute loop of \<open>main\<close>\<close>

text \<open>
  One pass through the body of the \<open>while\<close> loop either falls through to the loop
  test again (\<open>Continue\<close>) or leaves \<open>main\<close> by \<open>return\<close> with an exit status.
  The body is written in three parts, in the order of the source: the \<open>if\<close> that
  prints a pending character, the fetch with \<open>pc++\<close>, and the \<open>switch\<close>.
\<close>

datatype step = Continue machine | Return int machine

definition continue :: "error + machine \<Rightarrow> error + step" where
  "continue r = ebind r (\<lambda>s. Inr (Continue s))"

definition display_flush :: "machine \<Rightarrow> machine" where
  "display_flush s =
     (if scast (display_status s) = DISPLAY_SET
      then s\<lparr>io := io s @ [Stdout (ucast ((0x00FF :: 32 word) AND scast (display_data s)))],
             display_status := ucast DISPLAY_READY\<rparr>
      else s)"

definition fetch :: "machine \<Rightarrow> error + machine" where
  "fetch s = ebind (memory_at s (pc s)) (\<lambda>w.
     let s1 = s\<lparr>ir := w\<rparr> in Inr (s1\<lparr>pc := pc s1 + 1\<rparr>))"

definition dispatch :: "machine \<Rightarrow> error + step" where
  "dispatch s =
     (let opcode = ucast (OPCODE (ir s)) :: 16 word
      in if scast opcode = ADD_OP
         then (if IMMBIT (ir s) \<noteq> 0 then continue (addImm s) else continue (addRegs s))
         else if scast opcode = AND_OP
         then (if IMMBIT (ir s) \<noteq> 0 then continue (andImm s) else continue (andRegs s))
         else if scast opcode = LD_OP then continue (ld s)
         else if scast opcode = LDI_OP then continue (ldi s)
         else if scast opcode = LDR_OP then continue (ldr s)
         else if scast opcode = BR_OP then continue (br s)
         else if scast opcode = ST_OP then continue (st s)
         else if scast opcode = STI_OP then continue (sti s)
         else if scast opcode = STR_OP then continue (str s)
         else if scast opcode = LEA_OP then continue (lea s)
         else if scast opcode = JSR_OP then continue (jsr s)
         else if scast opcode = RET_OP then continue (ret s)
         else if scast opcode = TRAP_OP then continue (trap s)
         else Inr (Return 1 (s\<lparr>io := io s @ [Stderr opcode (pc s), Getchar]\<rparr>)))"

text \<open>
  The body of the loop: the display is flushed, the instruction at \<open>pc\<close> is
  fetched and \<open>pc\<close> incremented, and the \<open>switch\<close> runs the handler.
\<close>

definition body :: "machine \<Rightarrow> error + step" where
  "body s = ebind (fetch (display_flush s)) dispatch"

text \<open>
  The loop itself, with fuel: \<open>None\<close> means that the fuel ran out before the loop
  ended.  With \<open>PRINT_ON\<close> defined as 0 nothing follows the loop but \<open>return 0\<close>.
\<close>

fun main_loop :: "nat \<Rightarrow> machine \<Rightarrow> (error + int \<times> machine) option" where
  "main_loop 0 s = None"
| "main_loop (Suc k) s =
     (if MCR_POWER (mcr s) \<noteq> 0
      then (case body s of
              Inl e \<Rightarrow> Some (Inl e)
            | Inr (Continue s') \<Rightarrow> main_loop k s'
            | Inr (Return c s') \<Rightarrow> Some (Inr (c, s')))
      else Some (Inr (0, s)))"

text \<open>
  The program run on a loaded object file: \<open>init\<close>, then the loop.
\<close>

definition run :: "nat \<Rightarrow> (nat \<Rightarrow> 16 word) \<Rightarrow> 16 word \<Rightarrow> (error + int \<times> machine) option" where
  "run k m a = main_loop k (init (loaded m a))"

subsection \<open>The notions of the specification\<close>

text \<open>
  The source has no function for the memory-mapped router: every load and store handler
  repeats the comparison of the address with \<open>DSR\<close>, \<open>DDR\<close> and
  \<open>MCR_ADRESS\<close>.  The two definitions below follow the specification's
  \<open>read(addr)\<close> and \<open>write(addr, value)\<close>; the RAM cell is the array access
  \<open>memory[addr]\<close> as the code performs it.  The handlers are compared with them.
\<close>

definition router_read :: "machine \<Rightarrow> 16 word \<Rightarrow> error + 16 word" where
  "router_read s addr =
     (if addr = 0xFE04 then Inr (display_status s)
      else if addr = 0xFE06 then Inr (display_data s)
      else if addr = 0xFFFE then Inr (mcr s)
      else memory_at s addr)"

definition router_write :: "machine \<Rightarrow> 16 word \<Rightarrow> 16 word \<Rightarrow> error + machine" where
  "router_write s addr v =
     (if addr = 0xFE04 then Inr (s\<lparr>display_status := v\<rparr>)
      else if addr = 0xFE06 then Inr (s\<lparr>display_data := v, display_status := 0x0000\<rparr>)
      else if addr = 0xFFFE then Inr (s\<lparr>mcr := v\<rparr>)
      else memory_store s addr v)"

text \<open>
  The specification's own router is total: "otherwise \<open>RAM[addr]\<close>", with RAM an
  array of 65,536 words indexed by the address, so that every 16-bit address names a
  cell.  It differs from \<open>router_read\<close> and \<open>router_write\<close> above exactly
  where the code's index is negative.
\<close>

definition spec_read :: "machine \<Rightarrow> 16 word \<Rightarrow> 16 word" where
  "spec_read s addr =
     (if addr = 0xFE04 then display_status s
      else if addr = 0xFE06 then display_data s
      else if addr = 0xFFFE then mcr s
      else memory s (unat addr))"

definition spec_write :: "machine \<Rightarrow> 16 word \<Rightarrow> 16 word \<Rightarrow> machine" where
  "spec_write s addr v =
     (if addr = 0xFE04 then s\<lparr>display_status := v\<rparr>
      else if addr = 0xFE06 then s\<lparr>display_data := v, display_status := 0x0000\<rparr>
      else if addr = 0xFFFE then s\<lparr>mcr := v\<rparr>
      else s\<lparr>memory := (memory s)(unat addr := v)\<rparr>)"

text \<open>
  Sign extension of the field in bits \<open>n-1..0\<close> to 16 bits, and zero extension.
\<close>

definition sign_ext :: "nat \<Rightarrow> 16 word \<Rightarrow> 16 word" where
  "sign_ext n w = (if bit w (n - 1) then take_bit n w OR NOT (mask n) else take_bit n w)"

definition zero_ext :: "nat \<Rightarrow> 16 word \<Rightarrow> 16 word" where
  "zero_ext n w = take_bit n w"

text \<open>
  The register numbers in an instruction word (fields A, B and C of the specification),
  the specification's \<open>set_cc\<close>, and \<open>write_DR\<close>: writing a destination
  register and setting the condition codes from the value written.
\<close>

definition field_A :: "16 word \<Rightarrow> nat" where "field_A w = unat (take_bit 3 (drop_bit 9 w))"
definition field_B :: "16 word \<Rightarrow> nat" where "field_B w = unat (take_bit 3 (drop_bit 6 w))"
definition field_C :: "16 word \<Rightarrow> nat" where "field_C w = unat (take_bit 3 w)"

definition set_cc :: "16 word \<Rightarrow> machine \<Rightarrow> machine" where
  "set_cc v s =
     (if sint v < 0 then s\<lparr>psr_z := 0, psr_n := 1, psr_p := 0\<rparr>
      else if v = 0 then s\<lparr>psr_z := 1, psr_n := 0, psr_p := 0\<rparr>
      else s\<lparr>psr_z := 0, psr_n := 0, psr_p := 1\<rparr>)"

definition write_DR :: "machine \<Rightarrow> nat \<Rightarrow> 16 word \<Rightarrow> machine" where
  "write_DR s r v = set_cc v (s\<lparr>regs := (regs s)(r := v)\<rparr>)"

text \<open>Exactly one of the flags N, Z, P is 1.\<close>

definition cc_exclusive :: "machine \<Rightarrow> bool" where
  "cc_exclusive s \<longleftrightarrow>
     (psr_n s = 1 \<and> psr_z s = 0 \<and> psr_p s = 0) \<or>
     (psr_n s = 0 \<and> psr_z s = 1 \<and> psr_p s = 0) \<or>
     (psr_n s = 0 \<and> psr_z s = 0 \<and> psr_p s = 1)"

text \<open>The characters written to standard output, and the number of reads of standard input.\<close>

fun stdout_of :: "event list \<Rightarrow> 8 word list" where
  "stdout_of [] = []"
| "stdout_of (Stdout c # es) = c # stdout_of es"
| "stdout_of (e # es) = stdout_of es"

fun stdin_reads :: "event list \<Rightarrow> nat" where
  "stdin_reads [] = 0"
| "stdin_reads (Getchar # es) = Suc (stdin_reads es)"
| "stdin_reads (e # es) = stdin_reads es"

fun state_of :: "step \<Rightarrow> machine" where
  "state_of (Continue s) = s"
| "state_of (Return c s) = s"

text \<open>The branch condition \<open>(n & N) | (z & Z) | (p & P)\<close> of the specification.\<close>

definition br_taken :: "machine \<Rightarrow> bool" where
  "br_taken s \<longleftrightarrow>
     (bit (ir s) 11 \<and> psr_n s = 1) \<or> (bit (ir s) 10 \<and> psr_z s = 1) \<or> (bit (ir s) 9 \<and> psr_p s = 1)"

subsection \<open>Object programs used as concrete inputs\<close>

text \<open>
  Each is the content of \<open>memory\<close> after loading; the programs start at
  \<open>0x3000\<close> unless said otherwise.  \<open>halt_program\<close> is \<open>STI R0, #0\<close>
  followed by the pointer \<open>0xFFFE\<close>; \<open>rti_program\<close> and
  \<open>reserved_program\<close> hold one word with opcode 8 and 13;
  \<open>add_program\<close> is \<open>ADD R0, R0, #-1\<close>.
\<close>

definition halt_program :: "nat \<Rightarrow> 16 word" where
  "halt_program = (\<lambda>_. 0)(0x3000 := 0xB000, 0x3001 := 0xFFFE)"

definition rti_program :: "nat \<Rightarrow> 16 word" where
  "rti_program = (\<lambda>_. 0)(0x3000 := 0x8000)"

definition reserved_program :: "nat \<Rightarrow> 16 word" where
  "reserved_program = (\<lambda>_. 0)(0x3000 := 0xD000)"

definition add_program :: "nat \<Rightarrow> 16 word" where
  "add_program = (\<lambda>_. 0)(0x3000 := 0x103F)"

text \<open>
  \<open>dsr_program\<close> and \<open>putc_program\<close> are \<open>STI R0, #0\<close> followed by the
  pointer \<open>0xFE04\<close> (DSR) and \<open>0xFE06\<close> (DDR).  \<open>putc_start\<close> is the
  machine about to run \<open>putc_program\<close> with the character \<open>0x41\<close> in R0, and
  \<open>putc_stored\<close> the machine after the store.
\<close>

definition dsr_program :: "nat \<Rightarrow> 16 word" where
  "dsr_program = (\<lambda>_. 0)(0x3000 := 0xB000, 0x3001 := 0xFE04)"

definition putc_program :: "nat \<Rightarrow> 16 word" where
  "putc_program = (\<lambda>_. 0)(0x3000 := 0xB000, 0x3001 := 0xFE06)"

definition putc_start :: machine where
  "putc_start = (init (loaded putc_program 0x3000))\<lparr>regs := (\<lambda>_. 0)(0 := 0x41)\<rparr>"

definition putc_stored :: machine where
  "putc_stored = putc_start\<lparr>ir := 0xB000, pc := 0x3001, display_data := 0x41, display_status := 0\<rparr>"

text \<open>
  \<open>lea_program\<close> is \<open>LEA R0, #-1\<close>;
  \<open>trap_program\<close> is \<open>TRAP xFF\<close>.  \<open>ld_high_program\<close> and
  \<open>st_high_program\<close> are \<open>LD R0, #0\<close> and \<open>ST R0, #0\<close> loaded at
  \<open>0x7FFF\<close>, so that the address they access is \<open>0x8000\<close>.
  \<open>ldi_high_program\<close> and \<open>sti_high_program\<close> are \<open>LDI R0, #0\<close> and
  \<open>STI R0, #0\<close> followed by the pointer \<open>0x8000\<close>;
  \<open>ldi_edge_program\<close> and \<open>sti_edge_program\<close> are the same instructions
  loaded at \<open>0x7FFF\<close>, so that the pointer itself is at \<open>0x8000\<close>.
\<close>

definition lea_program :: "nat \<Rightarrow> 16 word" where
  "lea_program = (\<lambda>_. 0)(0x3000 := 0xE1FF)"

definition trap_program :: "nat \<Rightarrow> 16 word" where
  "trap_program = (\<lambda>_. 0)(0x3000 := 0xF0FF)"

definition ld_high_program :: "nat \<Rightarrow> 16 word" where
  "ld_high_program = (\<lambda>_. 0)(0x7FFF := 0x2000)"

definition st_high_program :: "nat \<Rightarrow> 16 word" where
  "st_high_program = (\<lambda>_. 0)(0x7FFF := 0x3000)"

definition ldi_high_program :: "nat \<Rightarrow> 16 word" where
  "ldi_high_program = (\<lambda>_. 0)(0x3000 := 0xA000, 0x3001 := 0x8000)"

definition sti_high_program :: "nat \<Rightarrow> 16 word" where
  "sti_high_program = (\<lambda>_. 0)(0x3000 := 0xB000, 0x3001 := 0x8000)"

definition ldi_edge_program :: "nat \<Rightarrow> 16 word" where
  "ldi_edge_program = (\<lambda>_. 0)(0x7FFF := 0xA000)"

definition sti_edge_program :: "nat \<Rightarrow> 16 word" where
  "sti_edge_program = (\<lambda>_. 0)(0x7FFF := 0xB000)"

section \<open>Properties\<close>

subsection \<open>Bit-level facts about the macros\<close>

lemma mask_numerals32:
  "(0xF :: 32 word) = mask 4" "(7 :: 32 word) = mask 3"
  by (simp_all add: mask_eq_exp_minus_1)

lemma bit_promote:
  "bit (scast (w :: 16 word) :: 32 word) k \<longleftrightarrow> (if k < 16 then bit w k else k < 32 \<and> bit w 15)"
proof (cases "k < 15")
  case True
  then show ?thesis by (simp add: bit_simps min_def)
next
  case False
  then have "k = 15 \<or> 16 \<le> k" by arith
  then show ?thesis by (auto simp add: bit_simps min_def)
qed

lemma bit_0x20: "bit (0x20 :: int) k \<longleftrightarrow> k = 5"
proof -
  have "(0x20 :: int) = 2 ^ 5" by simp
  then show ?thesis by (simp only: bit_exp_iff) auto
qed

lemma bit_0x8000: "bit (0x8000 :: int) k \<longleftrightarrow> k = 15"
proof -
  have "(0x8000 :: int) = 2 ^ 15" by simp
  then show ?thesis by (simp only: bit_exp_iff) auto
qed

lemma sint_small:
  fixes x :: "16 word"
  assumes "uint x < 2 ^ 15"
  shows "sint x = uint x"
proof -
  have "- (2 ^ 15) \<le> uint x" by (rule order_trans [of _ 0]) simp_all
  then have "signed_take_bit 15 (uint x) = uint x"
    using assms by (rule signed_take_bit_int_eq_self)
  then show ?thesis by (simp add: sint_uint)
qed

lemma IMMBIT_iff: "IMMBIT w \<noteq> 0 \<longleftrightarrow> bit w 5"
proof -
  have "IMMBIT w = of_bool (bit w 5)"
    unfolding IMMBIT_def
    by (rule bit_word_eqI)
      (auto simp add: bit_promote bit_0x20 bit_and_iff bit_signed_drop_bit_iff bit_of_bool_iff)
  then show ?thesis by simp
qed

lemma MCR_POWER_iff: "MCR_POWER m \<noteq> 0 \<longleftrightarrow> bit m 15"
proof -
  have "MCR_POWER m = of_bool (bit m 15)"
    unfolding MCR_POWER_def
    by (rule bit_word_eqI)
      (auto simp add: bit_promote bit_0x8000 bit_and_iff bit_signed_drop_bit_iff bit_of_bool_iff)
  then show ?thesis by simp
qed

lemma OPCODE_16: "(ucast (OPCODE w) :: 16 word) = drop_bit 12 w"
proof (rule bit_word_eqI)
  fix n assume "n < LENGTH(16)"
  show "bit (ucast (OPCODE w) :: 16 word) n = bit (drop_bit 12 w) n"
    using bit_imp_le_length [of w "12 + n"]
    by (auto simp add: OPCODE_def mask_numerals32 bit_promote bit_ucast_iff bit_and_iff
        bit_mask_iff bit_signed_drop_bit_iff bit_drop_bit_eq)
qed

lemma switch_opcode: "(scast (ucast (OPCODE w) :: 16 word) :: 32 word) = OPCODE w"
proof (rule bit_word_eqI)
  fix n assume "n < LENGTH(32)"
  show "bit (scast (ucast (OPCODE w) :: 16 word) :: 32 word) n = bit (OPCODE w) n"
    by (auto simp add: OPCODE_def mask_numerals32 bit_promote bit_ucast_iff bit_and_iff
        bit_mask_iff bit_signed_drop_bit_iff)
qed

lemma REG_16:
  "(ucast (REG1 w) :: 16 word) = take_bit 3 (drop_bit 9 w)"
  "(ucast (REG2 w) :: 16 word) = take_bit 3 (drop_bit 6 w)"
  "(ucast (REG3 w) :: 16 word) = take_bit 3 w"
  unfolding REG1_def REG2_def REG3_def mask_numerals32
  by (rule bit_word_eqI; auto simp add: bit_promote bit_ucast_iff bit_and_iff
        bit_mask_iff bit_signed_drop_bit_iff bit_drop_bit_eq bit_take_bit_iff)+

lemma BR_bits:
  "(scast (ucast (BRN w) :: 16 word) :: 32 word) = of_bool (bit w 11)"
  "(scast (ucast (BRZ w) :: 16 word) :: 32 word) = of_bool (bit w 10)"
  "(scast (ucast (BRP w) :: 16 word) :: 32 word) = of_bool (bit w 9)"
  unfolding BRN_def BRZ_def BRP_def
  by (rule bit_word_eqI; auto simp add: bit_promote bit_ucast_iff bit_and_iff
        bit_1_iff bit_signed_drop_bit_iff bit_of_bool_iff)+

lemma signed_take_bit_16:
  "(ucast (IMMVAL w) :: 16 word) = signed_take_bit 4 w"
  "(ucast (PCOFFSET11 w) :: 16 word) = signed_take_bit 10 w"
  "(ucast (PCOFFSET9 w) :: 16 word) = signed_take_bit 8 w"
  "(ucast (PCOFFSET6 w) :: 16 word) = signed_take_bit 5 w"
  "(ucast (TRPVECT8 w) :: 16 word) = signed_take_bit 7 w"
  unfolding IMMVAL_def PCOFFSET11_def PCOFFSET9_def PCOFFSET6_def TRPVECT8_def
  by (rule bit_word_eqI; auto simp add: bit_simps)+

lemma sign_ext_eq:
  assumes "0 < n"
  shows "signed_take_bit (n - 1) w = sign_ext n w"
proof (rule bit_word_eqI)
  fix k assume "k < LENGTH(16)"
  consider "k < n - 1" | "k = n - 1" | "n \<le> k" using assms by arith
  then show "bit (signed_take_bit (n - 1) w) k = bit (sign_ext n w) k"
    using assms \<open>k < LENGTH(16)\<close> by cases (auto simp add: sign_ext_def bit_simps min_def)
qed

lemma macro_sign_ext:
  "(ucast (IMMVAL w) :: 16 word) = sign_ext 5 w"
  "(ucast (PCOFFSET11 w) :: 16 word) = sign_ext 11 w"
  "(ucast (PCOFFSET9 w) :: 16 word) = sign_ext 9 w"
  "(ucast (PCOFFSET6 w) :: 16 word) = sign_ext 6 w"
  by (simp_all add: signed_take_bit_16 flip: sign_ext_eq)

lemma uint_take_bit3: "uint (take_bit 3 x :: 16 word) < 8"
proof -
  have "uint (take_bit 3 x :: 16 word) = take_bit 3 (uint x)" by (simp add: unsigned_take_bit_eq)
  also have "\<dots> < 2 ^ 3" by (rule take_bit_int_less_exp)
  finally show ?thesis by simp
qed

lemma sint_take_bit3: "sint (take_bit 3 x :: 16 word) = uint (take_bit 3 x :: 16 word)"
  using uint_take_bit3 [of x] by (intro sint_small) simp

lemma reg_index:
  "0 \<le> sint (take_bit 3 x :: 16 word)" "sint (take_bit 3 x :: 16 word) < REG_COUNT"
  "nat (sint (take_bit 3 x :: 16 word)) = unat (take_bit 3 x :: 16 word)"
  using uint_take_bit3 [of x] by (simp_all add: sint_take_bit3 REG_COUNT_def)

lemma regs_at_field [simp]:
  "regs_at s (take_bit 3 x) = Inr (regs s (unat (take_bit 3 x :: 16 word)))"
  by (simp add: regs_at_def reg_index)

lemma regs_store_field [simp]:
  "regs_store s (take_bit 3 x) v = Inr (s\<lparr>regs := (regs s)(unat (take_bit 3 x :: 16 word) := v)\<rparr>)"
  by (simp add: regs_store_def reg_index)

lemma field_REG:
  "field_A w = nat (sint (ucast (REG1 w) :: 16 word))"
  "field_B w = nat (sint (ucast (REG2 w) :: 16 word))"
  "field_C w = nat (sint (ucast (REG3 w) :: 16 word))"
  by (simp_all add: field_A_def field_B_def field_C_def REG_16 reg_index)

lemma regs_7 [simp]:
  "regs_at s 7 = Inr (regs s 7)"
  "regs_store s 7 v = Inr (s\<lparr>regs := (regs s)(7 := v)\<rparr>)"
  by (simp_all add: regs_at_def regs_store_def REG_COUNT_def)

lemma updatePSR_CC_eq: "updatePSR_CC v s = set_cc v s"
  by (auto simp add: updatePSR_CC_def set_cc_def signed_eq_0_iff)

lemma ebind_simps [simp]:
  "ebind (Inl e) f = Inl e" "ebind (Inr x) f = f x"
  by (simp_all add: ebind_def)

lemma set_cc_fields [simp]:
  "regs (set_cc v s) = regs s" "memory (set_cc v s) = memory s" "pc (set_cc v s) = pc s"
  "ir (set_cc v s) = ir s" "mcr (set_cc v s) = mcr s" "io (set_cc v s) = io s"
  "display_status (set_cc v s) = display_status s" "display_data (set_cc v s) = display_data s"
  by (simp_all add: set_cc_def)

lemma addImm_eq:
  "addImm s = Inr (write_DR s (field_A (ir s)) (regs s (field_B (ir s)) + sign_ext 5 (ir s)))"
  by (simp add: addImm_def Let_def REG_16 macro_sign_ext updatePSR_CC_eq write_DR_def
      field_A_def field_B_def)

lemma addRegs_eq:
  "addRegs s = Inr (write_DR s (field_A (ir s)) (regs s (field_B (ir s)) + regs s (field_C (ir s))))"
  by (simp add: addRegs_def Let_def REG_16 updatePSR_CC_eq write_DR_def
      field_A_def field_B_def field_C_def)

subsection \<open>The handlers in terms of the router\<close>

lemma device_consts:
  "DSR = 0xFE04" "DDR = 0xFE06" "MCR_ADRESS = 0xFFFE"
  "(ucast DISPLAY_SET :: 16 word) = 0" "(ucast DISPLAY_READY :: 16 word) = 0x8000"
  by (simp_all add: DSR_def DDR_def MCR_ADRESS_def DISPLAY_SET_def DISPLAY_READY_def)

lemma word1_cases: "(x :: 1 word) = 0 \<or> x = 1"
proof (cases "bit x 0")
  case True
  then have "x = 1" by (intro bit_word_eqI) (auto simp add: bit_1_iff)
  then show ?thesis ..
next
  case False
  then have "x = 0" by (intro bit_word_eqI) auto
  then show ?thesis ..
qed

lemma flag_and:
  "(ucast (x :: 1 word) AND (of_bool b :: 32 word)) = of_bool (b \<and> x = 1)"
  using word1_cases [of x] by auto

lemma of_bool_or_eq_0:
  "(of_bool a OR of_bool b OR of_bool c) = (0 :: 32 word) \<longleftrightarrow> \<not> (a \<or> b \<or> c)"
  by (cases a; cases b; cases c) simp_all

lemma sint_nonneg_unat:
  fixes a :: "16 word"
  assumes "\<not> bit a 15"
  shows "nat (sint a) = unat a"
proof -
  from assms have 0: "0 \<le> sint a" using bit_last_iff [of a] by simp
  have "sint a < 2 ^ 16" using sint_lt [of a] by simp
  have "uint a = take_bit 16 (sint a)" by (simp add: uint_sint)
  also have "\<dots> = sint a" using 0 \<open>sint a < 2 ^ 16\<close> by (simp add: take_bit_int_eq_self)
  finally have "sint a = uint a" by simp
  then show ?thesis by (simp only: nat_uint_eq)
qed

lemma memory_at_eq:
  "memory_at s a = (if bit a 15 then Inl (MemoryOutOfBounds (sint a)) else Inr (memory s (unat a)))"
proof -
  have b: "bit a 15 \<longleftrightarrow> sint a < 0" using bit_last_iff [of a] by simp
  have u: "sint a < MEMORY_SIZE"
    using sint_lt [of a] by (simp add: MEMORY_SIZE_def)
  show ?thesis using u sint_nonneg_unat [of a] by (simp add: memory_at_def b not_less)
qed

lemma memory_store_eq:
  "memory_store s a v = (if bit a 15 then Inl (MemoryOutOfBounds (sint a))
     else Inr (s\<lparr>memory := (memory s)(unat a := v)\<rparr>))"
proof -
  have b: "bit a 15 \<longleftrightarrow> sint a < 0" using bit_last_iff [of a] by simp
  have u: "sint a < MEMORY_SIZE"
    using sint_lt [of a] by (simp add: MEMORY_SIZE_def)
  show ?thesis using u sint_nonneg_unat [of a] by (simp add: memory_store_def b not_less)
qed

lemma andImm_eq:
  "andImm s = Inr (write_DR s (field_A (ir s)) (regs s (field_B (ir s)) AND sign_ext 5 (ir s)))"
  by (simp add: andImm_def Let_def REG_16 macro_sign_ext updatePSR_CC_eq write_DR_def
      field_A_def field_B_def)

lemma andRegs_eq:
  "andRegs s = Inr (write_DR s (field_A (ir s)) (regs s (field_B (ir s)) AND regs s (field_C (ir s))))"
  by (simp add: andRegs_def Let_def REG_16 updatePSR_CC_eq write_DR_def
      field_A_def field_B_def field_C_def)

lemma not_instr_eq:
  "not_instr s = Inr (write_DR s (field_A (ir s)) (NOT (regs s (field_B (ir s)))))"
  by (simp add: not_instr_def Let_def REG_16 updatePSR_CC_eq write_DR_def
      field_A_def field_B_def)

lemma br_eq:
  "br s = Inr (if br_taken s then s\<lparr>pc := pc s + sign_ext 9 (ir s)\<rparr> else s)"
  by (simp add: br_def Let_def BR_bits flag_and of_bool_or_eq_0 macro_sign_ext br_taken_def)

lemma route_pointer:
  "(if a = DSR then Inr (display_status s)
    else if a = DDR then Inr (display_data s)
    else if a = MCR_ADRESS then Inr (mcr s)
    else memory_at s a) = router_read s a"
  by (simp add: router_read_def device_consts)

lemma route_load:
  "(if a = DSR then regs_store s d (display_status s)
    else if a = DDR then regs_store s d (display_data s)
    else if a = MCR_ADRESS then regs_store s d (mcr s)
    else ebind (memory_at s a) (regs_store s d)) = ebind (router_read s a) (regs_store s d)"
  by (simp add: router_read_def device_consts)

lemma route_store:
  "(if a = DSR then ebind (regs_at s r) (\<lambda>v. Inr (s\<lparr>display_status := v\<rparr>))
    else if a = DDR
    then ebind (regs_at s r) (\<lambda>v. Inr (s\<lparr>display_data := v, display_status := ucast DISPLAY_SET\<rparr>))
    else if a = MCR_ADRESS then ebind (regs_at s r) (\<lambda>v. Inr (s\<lparr>mcr := v\<rparr>))
    else ebind (regs_at s r) (memory_store s a)) = ebind (regs_at s r) (router_write s a)"
  by (cases "regs_at s r") (simp_all add: router_write_def device_consts)

lemma load_tail:
  "ebind (ebind m (regs_store s (take_bit 3 x)))
     (\<lambda>s1. ebind (regs_at s1 (take_bit 3 x)) (\<lambda>v. Inr (updatePSR_CC v s1)))
   = ebind m (\<lambda>v. Inr (write_DR s (unat (take_bit 3 x :: 16 word)) v))"
  by (cases m) (simp_all add: updatePSR_CC_eq write_DR_def)

lemma ld_eq:
  "ld s = ebind (router_read s (pc s + sign_ext 9 (ir s)))
            (\<lambda>v. Inr (write_DR s (field_A (ir s)) v))"
  unfolding ld_def Let_def route_load REG_16 load_tail
  by (simp add: macro_sign_ext field_A_def)

lemma ldi_eq:
  "ldi s = ebind (router_read s (pc s + sign_ext 9 (ir s))) (\<lambda>ptr.
           ebind (router_read s ptr) (\<lambda>v. Inr (write_DR s (field_A (ir s)) v)))"
  unfolding ldi_def Let_def route_load route_pointer REG_16 load_tail
  by (simp add: macro_sign_ext field_A_def)

lemma ldr_eq:
  "ldr s = ebind (router_read s (regs s (field_B (ir s)) + sign_ext 6 (ir s)))
            (\<lambda>v. Inr (write_DR s (field_A (ir s)) v))"
  unfolding ldr_def Let_def route_load REG_16 load_tail
  by (simp add: macro_sign_ext field_A_def field_B_def)

lemma st_eq:
  "st s = router_write s (pc s + sign_ext 9 (ir s)) (regs s (field_A (ir s)))"
  unfolding st_def Let_def route_store REG_16
  by (simp add: macro_sign_ext field_A_def)

lemma sti_eq:
  "sti s = ebind (router_read s (pc s + sign_ext 9 (ir s))) (\<lambda>ptr.
             router_write s ptr (regs s (field_A (ir s))))"
  unfolding sti_def Let_def route_store route_pointer REG_16
  by (simp add: macro_sign_ext field_A_def)

lemma str_eq:
  "str s = router_write s (regs s (field_B (ir s)) + sign_ext 6 (ir s)) (regs s (field_A (ir s)))"
  unfolding str_def Let_def route_store REG_16
  by (simp add: macro_sign_ext field_A_def field_B_def)

lemma lea_eq:
  "lea s = Inr (write_DR s (field_A (ir s)) (pc s + sign_ext 9 (ir s)))"
  by (simp add: lea_def Let_def REG_16 macro_sign_ext updatePSR_CC_eq write_DR_def field_A_def)

lemma jsr_eq:
  "jsr s = Inr (s\<lparr>regs := (regs s)(7 := pc s), pc := pc s + sign_ext 11 (ir s)\<rparr>)"
  by (simp add: jsr_def Let_def macro_sign_ext)

lemma ret_eq: "ret s = Inr (s\<lparr>pc := regs s 7\<rparr>)"
  by (simp add: ret_def)

lemma signed_take_bit7_high:
  "bit w 7 \<Longrightarrow> bit (signed_take_bit 7 (w :: 16 word)) 15"
  by (simp add: bit_simps)

lemma signed_take_bit7_low:
  assumes "\<not> bit w 7"
  shows "signed_take_bit 7 (w :: 16 word) = zero_ext 8 w"
proof (rule bit_word_eqI)
  fix k assume "k < LENGTH(16)"
  consider "k < 7" | "k = 7" | "8 \<le> k" by arith
  then show "bit (signed_take_bit 7 w) k = bit (zero_ext 8 w) k"
    using assms by cases (auto simp add: zero_ext_def bit_simps min_def)
qed

lemma trap_eq:
  "trap s = (if bit (ir s) 7 then Inl (MemoryOutOfBounds (sint (signed_take_bit 7 (ir s))))
     else Inr (s\<lparr>regs := (regs s)(7 := pc s), pc := memory s (unat (zero_ext 8 (ir s)))\<rparr>))"
  by (simp add: trap_def Let_def signed_take_bit_16 memory_at_eq signed_take_bit7_high signed_take_bit7_low zero_ext_def bit_take_bit_iff)

subsection \<open>The loop body\<close>

lemma stdout_char: "(ucast ((0x00FF :: 32 word) AND scast (d :: 16 word)) :: 8 word) = ucast (d AND 0xFF)"
proof -
  have m: "(0xFF :: 32 word) = mask 8" "(0xFF :: 16 word) = mask 8" by (simp_all add: mask_eq_exp_minus_1)
  show ?thesis unfolding m
    by (rule bit_word_eqI) (auto simp add: bit_promote bit_ucast_iff bit_and_iff bit_mask_iff)
qed

lemma scast_eq_0: "(scast (x :: 16 word) :: 32 word) = 0 \<longleftrightarrow> x = 0"
proof
  assume "(scast x :: 32 word) = 0"
  then have "(ucast (scast x :: 32 word) :: 16 word) = 0" by simp
  moreover have "(ucast (scast x :: 32 word) :: 16 word) = x"
    by (rule bit_word_eqI) (auto simp add: bit_promote bit_ucast_iff)
  ultimately show "x = 0" by simp
qed simp

lemma display_flush_eq:
  "display_flush s =
     (if display_status s = 0
      then s\<lparr>io := io s @ [Stdout (ucast (display_data s AND 0xFF))], display_status := 0x8000\<rparr>
      else s)"
  by (simp add: display_flush_def DISPLAY_SET_def scast_eq_0 stdout_char device_consts)

lemma fetch_eq:
  "fetch s = (if bit (pc s) 15 then Inl (MemoryOutOfBounds (sint (pc s)))
              else Inr (s\<lparr>ir := memory s (unat (pc s)), pc := pc s + 1\<rparr>))"
  by (simp add: fetch_def memory_at_eq Let_def)

lemmas opcode_defs = ADD_OP_def AND_OP_def LD_OP_def LDI_OP_def LDR_OP_def BR_OP_def ST_OP_def
  STI_OP_def STR_OP_def LEA_OP_def JSR_OP_def RET_OP_def TRAP_OP_def

lemma continue_simps [simp]:
  "continue (Inr s) = Inr (Continue s)" "continue (Inl e) = Inl e"
  by (simp_all add: continue_def)

lemma dispatch_eq:
  "dispatch s =
     (if OPCODE (ir s) = 1
      then (if bit (ir s) 5 then continue (addImm s) else continue (addRegs s))
      else if OPCODE (ir s) = 5
      then (if bit (ir s) 5 then continue (andImm s) else continue (andRegs s))
      else if OPCODE (ir s) = 2 then continue (ld s)
      else if OPCODE (ir s) = 10 then continue (ldi s)
      else if OPCODE (ir s) = 6 then continue (ldr s)
      else if OPCODE (ir s) = 0 then continue (br s)
      else if OPCODE (ir s) = 3 then continue (st s)
      else if OPCODE (ir s) = 11 then continue (sti s)
      else if OPCODE (ir s) = 7 then continue (str s)
      else if OPCODE (ir s) = 14 then continue (lea s)
      else if OPCODE (ir s) = 4 then continue (jsr s)
      else if OPCODE (ir s) = 12 then continue (ret s)
      else if OPCODE (ir s) = 15 then continue (trap s)
      else Inr (Return 1 (s\<lparr>io := io s @ [Stderr (ucast (OPCODE (ir s))) (pc s), Getchar]\<rparr>)))"
  unfolding dispatch_def Let_def switch_opcode opcode_defs IMMBIT_iff ..

lemma router_read_no_regs_error: "router_read s a \<noteq> Inl (RegsOutOfBounds i)"
  by (simp add: router_read_def memory_at_eq)

lemma router_write_no_regs_error: "router_write s a v \<noteq> Inl (RegsOutOfBounds i)"
  by (simp add: router_write_def memory_store_eq)

lemma ebind_no_regs_error:
  assumes "m \<noteq> Inl (RegsOutOfBounds i)" and "\<And>x. f x \<noteq> Inl (RegsOutOfBounds i)"
  shows "ebind m f \<noteq> Inl (RegsOutOfBounds i)"
  using assms by (cases m) simp_all

lemma continue_no_regs_error:
  "m \<noteq> Inl (RegsOutOfBounds i) \<Longrightarrow> continue m \<noteq> Inl (RegsOutOfBounds i)"
  by (cases m) simp_all

lemma handlers_no_regs_error:
  "addImm s \<noteq> Inl (RegsOutOfBounds i)" "addRegs s \<noteq> Inl (RegsOutOfBounds i)"
  "andImm s \<noteq> Inl (RegsOutOfBounds i)" "andRegs s \<noteq> Inl (RegsOutOfBounds i)"
  "not_instr s \<noteq> Inl (RegsOutOfBounds i)" "br s \<noteq> Inl (RegsOutOfBounds i)"
  "ld s \<noteq> Inl (RegsOutOfBounds i)" "ldi s \<noteq> Inl (RegsOutOfBounds i)"
  "ldr s \<noteq> Inl (RegsOutOfBounds i)" "st s \<noteq> Inl (RegsOutOfBounds i)"
  "sti s \<noteq> Inl (RegsOutOfBounds i)" "str s \<noteq> Inl (RegsOutOfBounds i)"
  "lea s \<noteq> Inl (RegsOutOfBounds i)" "jsr s \<noteq> Inl (RegsOutOfBounds i)"
  "ret s \<noteq> Inl (RegsOutOfBounds i)" "trap s \<noteq> Inl (RegsOutOfBounds i)"
  by (simp_all add: addImm_eq addRegs_eq andImm_eq andRegs_eq not_instr_eq br_eq ld_eq ldi_eq
      ldr_eq st_eq sti_eq str_eq lea_eq jsr_eq ret_eq trap_eq
      ebind_no_regs_error router_read_no_regs_error router_write_no_regs_error)

lemma dispatch_no_regs_error: "dispatch s \<noteq> Inl (RegsOutOfBounds i)"
  unfolding dispatch_eq
  by (simp add: continue_no_regs_error handlers_no_regs_error)

lemma fetch_no_regs_error: "fetch s \<noteq> Inl (RegsOutOfBounds i)"
  by (simp add: fetch_eq)

lemma macro_reg_bounds:
  "0 \<le> sint (ucast (REG1 w) :: 16 word)" "sint (ucast (REG1 w) :: 16 word) < REG_COUNT"
  "0 \<le> sint (ucast (REG2 w) :: 16 word)" "sint (ucast (REG2 w) :: 16 word) < REG_COUNT"
  "0 \<le> sint (ucast (REG3 w) :: 16 word)" "sint (ucast (REG3 w) :: 16 word) < REG_COUNT"
  by (simp_all add: REG_16 reg_index)

subsection \<open>What a pass through the loop body preserves\<close>

lemma below_16_cases:
  assumes "(k :: nat) < 16"
  shows "k = 15 \<or> k = 14 \<or> k = 13 \<or> k = 12 \<or> k = 11 \<or> k = 10 \<or> k = 9 \<or> k = 8
    \<or> k = 7 \<or> k = 6 \<or> k = 5 \<or> k = 4 \<or> k = 3 \<or> k = 2 \<or> k = 1 \<or> k = 0"
  using assms by presburger

lemma OPCODE_cases:
  "OPCODE w = 0 \<or> OPCODE w = 1 \<or> OPCODE w = 2 \<or> OPCODE w = 3 \<or> OPCODE w = 4 \<or> OPCODE w = 5
   \<or> OPCODE w = 6 \<or> OPCODE w = 7 \<or> OPCODE w = 8 \<or> OPCODE w = 9 \<or> OPCODE w = 10
   \<or> OPCODE w = 11 \<or> OPCODE w = 12 \<or> OPCODE w = 13 \<or> OPCODE w = 14 \<or> OPCODE w = 15"
proof -
  have "uint (OPCODE w) < 2 ^ 4"
    unfolding OPCODE_def mask_numerals32 by (rule and_mask_lt_2p)
  then have "int (unat (OPCODE w)) < 16" by (simp only: flip: uint_nat) simp
  then have "unat (OPCODE w) < 16" by linarith
  from below_16_cases [OF this] have
    "of_nat (unat (OPCODE w)) \<in> {0 :: 32 word, 1, 2, 3, 4, 5, 6, 7, 8, 9, 10, 11, 12, 13, 14, 15}"
    by (elim disjE) simp_all
  then show ?thesis by simp
qed

lemma ebind_Inr_iff: "ebind m f = Inr y \<longleftrightarrow> (\<exists>x. m = Inr x \<and> f x = Inr y)"
  by (cases m) simp_all

lemma continue_Inr_iff: "continue m = Inr r \<longleftrightarrow> (\<exists>s'. m = Inr s' \<and> r = Continue s')"
  by (cases m) auto

lemma cc_exclusive_set_cc: "cc_exclusive (set_cc v s)"
  by (simp add: set_cc_def cc_exclusive_def)

lemma set_cc_flags:
  "psr_n (set_cc v s) = of_bool (sint v < 0)"
  "psr_z (set_cc v s) = of_bool (v = 0)"
  "psr_p (set_cc v s) = of_bool (0 < sint v)"
  by (auto simp add: set_cc_def signed_eq_0_iff not_less order_le_less)

lemma write_DR_fields [simp]:
  "io (write_DR s r v) = io s" "ir (write_DR s r v) = ir s" "regs (write_DR s r v) r = v"
  "pc (write_DR s r v) = pc s" "mcr (write_DR s r v) = mcr s"
  "display_status (write_DR s r v) = display_status s"
  "display_data (write_DR s r v) = display_data s"
  by (simp_all add: write_DR_def)

lemma cc_exclusive_write_DR: "cc_exclusive (write_DR s r v)"
  by (simp add: write_DR_def cc_exclusive_set_cc)

lemma write_DR_flags:
  "psr_n (write_DR s r v) = of_bool (sint v < 0)"
  "psr_z (write_DR s r v) = of_bool (v = 0)"
  "psr_p (write_DR s r v) = of_bool (0 < sint v)"
  by (simp_all add: write_DR_def set_cc_flags)

lemma router_write_fields:
  assumes "router_write s a v = Inr s'"
  shows "io s' = io s" "ir s' = ir s" "cc_exclusive s' = cc_exclusive s" "regs s' = regs s"
    "pc s' = pc s"
  using assms by (auto simp add: router_write_def memory_store_eq cc_exclusive_def split: if_splits)

lemma alu_kept:
  "addImm s = Inr s' \<Longrightarrow> io s' = io s \<and> ir s' = ir s \<and> cc_exclusive s'"
  "addRegs s = Inr s' \<Longrightarrow> io s' = io s \<and> ir s' = ir s \<and> cc_exclusive s'"
  "andImm s = Inr s' \<Longrightarrow> io s' = io s \<and> ir s' = ir s \<and> cc_exclusive s'"
  "andRegs s = Inr s' \<Longrightarrow> io s' = io s \<and> ir s' = ir s \<and> cc_exclusive s'"
  "lea s = Inr s' \<Longrightarrow> io s' = io s \<and> ir s' = ir s \<and> cc_exclusive s'"
  by (auto simp add: addImm_eq addRegs_eq andImm_eq andRegs_eq lea_eq cc_exclusive_write_DR)

lemma load_kept:
  "ld s = Inr s' \<Longrightarrow> io s' = io s \<and> ir s' = ir s \<and> cc_exclusive s'"
  "ldi s = Inr s' \<Longrightarrow> io s' = io s \<and> ir s' = ir s \<and> cc_exclusive s'"
  "ldr s = Inr s' \<Longrightarrow> io s' = io s \<and> ir s' = ir s \<and> cc_exclusive s'"
  by (auto simp add: ld_eq ldi_eq ldr_eq ebind_Inr_iff cc_exclusive_write_DR)

lemma store_kept:
  "st s = Inr s' \<Longrightarrow> io s' = io s \<and> ir s' = ir s \<and> cc_exclusive s' = cc_exclusive s"
  "sti s = Inr s' \<Longrightarrow> io s' = io s \<and> ir s' = ir s \<and> cc_exclusive s' = cc_exclusive s"
  "str s = Inr s' \<Longrightarrow> io s' = io s \<and> ir s' = ir s \<and> cc_exclusive s' = cc_exclusive s"
  by (auto simp add: st_eq sti_eq str_eq ebind_Inr_iff router_write_fields)

lemma jump_kept:
  "br s = Inr s' \<Longrightarrow> io s' = io s \<and> ir s' = ir s \<and> cc_exclusive s' = cc_exclusive s"
  "jsr s = Inr s' \<Longrightarrow> io s' = io s \<and> ir s' = ir s \<and> cc_exclusive s' = cc_exclusive s"
  "ret s = Inr s' \<Longrightarrow> io s' = io s \<and> ir s' = ir s \<and> cc_exclusive s' = cc_exclusive s"
  "trap s = Inr s' \<Longrightarrow> io s' = io s \<and> ir s' = ir s \<and> cc_exclusive s' = cc_exclusive s"
  by (auto simp add: br_eq jsr_eq ret_eq trap_eq cc_exclusive_def split: if_splits)

lemma dispatch_op:
  "OPCODE (ir s) = 1 \<Longrightarrow> dispatch s = continue (if bit (ir s) 5 then addImm s else addRegs s)"
  "OPCODE (ir s) = 5 \<Longrightarrow> dispatch s = continue (if bit (ir s) 5 then andImm s else andRegs s)"
  "OPCODE (ir s) = 2 \<Longrightarrow> dispatch s = continue (ld s)"
  "OPCODE (ir s) = 10 \<Longrightarrow> dispatch s = continue (ldi s)"
  "OPCODE (ir s) = 6 \<Longrightarrow> dispatch s = continue (ldr s)"
  "OPCODE (ir s) = 0 \<Longrightarrow> dispatch s = continue (br s)"
  "OPCODE (ir s) = 3 \<Longrightarrow> dispatch s = continue (st s)"
  "OPCODE (ir s) = 11 \<Longrightarrow> dispatch s = continue (sti s)"
  "OPCODE (ir s) = 7 \<Longrightarrow> dispatch s = continue (str s)"
  "OPCODE (ir s) = 14 \<Longrightarrow> dispatch s = continue (lea s)"
  "OPCODE (ir s) = 4 \<Longrightarrow> dispatch s = continue (jsr s)"
  "OPCODE (ir s) = 12 \<Longrightarrow> dispatch s = continue (ret s)"
  "OPCODE (ir s) = 15 \<Longrightarrow> dispatch s = continue (trap s)"
  by (simp_all add: dispatch_eq)

lemma dispatch_fatal:
  assumes "OPCODE (ir s) = 8 \<or> OPCODE (ir s) = 9 \<or> OPCODE (ir s) = 13"
  shows "dispatch s = Inr (Return 1 (s\<lparr>io := io s @ [Stderr (ucast (OPCODE (ir s))) (pc s), Getchar]\<rparr>))"
  using assms by (elim disjE) (simp_all add: dispatch_eq)

lemma dispatch_Continue:
  assumes "dispatch s = Inr (Continue s')"
  shows "io s' = io s \<and> ir s' = ir s \<and> (cc_exclusive s \<longrightarrow> cc_exclusive s')"
  using OPCODE_cases [of "ir s"] assms
  by (elim disjE)
     (auto simp add: dispatch_op dispatch_fatal continue_Inr_iff
       dest: alu_kept load_kept store_kept jump_kept split: if_splits)

lemma dispatch_Return:
  assumes "dispatch s = Inr (Return c s')"
  shows "c = 1 \<and> (OPCODE (ir s) = 8 \<or> OPCODE (ir s) = 9 \<or> OPCODE (ir s) = 13) \<and>
    s' = s\<lparr>io := io s @ [Stderr (ucast (OPCODE (ir s))) (pc s), Getchar]\<rparr>"
  using OPCODE_cases [of "ir s"] assms
  by (elim disjE) (simp_all add: dispatch_op dispatch_fatal continue_Inr_iff)

lemma OPCODE_eq: "OPCODE w = ucast (drop_bit 12 w)"
proof (rule bit_word_eqI)
  fix n assume "n < LENGTH(32)"
  show "bit (OPCODE w) n = bit (ucast (drop_bit 12 w :: 16 word) :: 32 word) n"
    using bit_imp_le_length [of w "12 + n"]
    by (auto simp add: OPCODE_def mask_numerals32 bit_promote bit_ucast_iff bit_and_iff
        bit_mask_iff bit_signed_drop_bit_iff bit_drop_bit_eq)
qed

lemma body_Inr_iff:
  "body s = Inr r \<longleftrightarrow> (\<exists>f. fetch (display_flush s) = Inr f \<and> dispatch f = Inr r)"
  by (simp add: body_def ebind_Inr_iff)

lemma fetch_Inr:
  assumes "fetch s = Inr f"
  shows "f = s\<lparr>ir := memory s (unat (pc s)), pc := pc s + 1\<rparr>" "\<not> bit (pc s) 15"
  using assms by (auto simp add: fetch_eq split: if_splits)

lemma fetch_fields:
  assumes "fetch s = Inr f"
  shows "io f = io s" "cc_exclusive f = cc_exclusive s" "mcr f = mcr s"
  using fetch_Inr(1) [OF assms] by (simp_all add: cc_exclusive_def)

lemma stdin_reads_append: "stdin_reads (xs @ ys) = stdin_reads xs + stdin_reads ys"
  by (induction xs rule: stdin_reads.induct) simp_all

lemma stdout_of_append: "stdout_of (xs @ ys) = stdout_of xs @ stdout_of ys"
  by (induction xs rule: stdout_of.induct) simp_all

lemma display_flush_fields:
  "cc_exclusive (display_flush s) = cc_exclusive s" "mcr (display_flush s) = mcr s"
  "stdin_reads (io (display_flush s)) = stdin_reads (io s)"
  by (simp_all add: display_flush_eq cc_exclusive_def stdin_reads_append)

lemma body_cc:
  assumes "cc_exclusive s" and "body s = Inr r"
  shows "cc_exclusive (state_of r)"
proof -
  from assms(2) obtain f where f: "fetch (display_flush s) = Inr f" and d: "dispatch f = Inr r"
    by (auto simp add: body_Inr_iff)
  from assms(1) f have "cc_exclusive f" by (simp add: fetch_fields display_flush_fields)
  then show ?thesis
  proof (cases r)
    case (Continue s')
    with d \<open>cc_exclusive f\<close> show ?thesis by (simp add: dispatch_Continue)
  next
    case (Return c s')
    with d \<open>cc_exclusive f\<close> show ?thesis
      using dispatch_Return [of f c s'] by (auto simp add: cc_exclusive_def)
  qed
qed

lemma cc_setting_flags:
  assumes "OPCODE (ir f) = ADD_OP \<or> OPCODE (ir f) = AND_OP \<or> OPCODE (ir f) = LD_OP \<or>
     OPCODE (ir f) = LDI_OP \<or> OPCODE (ir f) = LDR_OP \<or> OPCODE (ir f) = LEA_OP"
    and "dispatch f = Inr (Continue s')"
  shows "psr_n s' = of_bool (sint (regs s' (field_A (ir f))) < 0) \<and>
     psr_z s' = of_bool (regs s' (field_A (ir f)) = 0) \<and>
     psr_p s' = of_bool (0 < sint (regs s' (field_A (ir f))))"
  using assms unfolding opcode_defs
  by (elim disjE)
    (auto simp add: dispatch_op addImm_eq addRegs_eq andImm_eq andRegs_eq ld_eq ldi_eq ldr_eq lea_eq
      continue_Inr_iff ebind_Inr_iff write_DR_flags split: if_splits)

lemma not_instr_flags:
  assumes "not_instr s = Inr s'"
  shows "cc_exclusive s' \<and>
     psr_n s' = of_bool (sint (regs s' (field_A (ir s))) < 0) \<and>
     psr_z s' = of_bool (regs s' (field_A (ir s)) = 0) \<and>
     psr_p s' = of_bool (0 < sint (regs s' (field_A (ir s))))"
  using assms by (auto simp add: not_instr_eq write_DR_flags cc_exclusive_write_DR)

lemma init_cc: "cc_exclusive (init (loaded m a)) \<and> psr_z (init (loaded m a)) = 1"
  by (simp add: init_def loaded_def globals0_def cc_exclusive_def)

lemma body_Continue_reads:
  assumes "body s = Inr (Continue s')"
  shows "stdin_reads (io s') = stdin_reads (io s)"
proof -
  from assms obtain f where f: "fetch (display_flush s) = Inr f" and d: "dispatch f = Inr (Continue s')"
    by (auto simp add: body_Inr_iff)
  from d have "io s' = io f" by (simp add: dispatch_Continue)
  with f show ?thesis by (simp add: fetch_fields display_flush_fields)
qed

lemma body_Return_reads:
  assumes "body s = Inr (Return c s')"
  shows "c = 1 \<and> (OPCODE (ir s') = 8 \<or> OPCODE (ir s') = 9 \<or> OPCODE (ir s') = 13) \<and>
     stdin_reads (io s') = Suc (stdin_reads (io s))"
proof -
  from assms obtain f where f: "fetch (display_flush s) = Inr f" and d: "dispatch f = Inr (Return c s')"
    by (auto simp add: body_Inr_iff)
  from dispatch_Return [OF d] have c: "c = 1"
    and o: "OPCODE (ir f) = 8 \<or> OPCODE (ir f) = 9 \<or> OPCODE (ir f) = 13"
    and s': "s' = f\<lparr>io := io f @ [Stderr (ucast (OPCODE (ir f))) (pc f), Getchar]\<rparr>"
    by simp_all
  from s' have "stdin_reads (io s') = Suc (stdin_reads (io f))"
    by (simp add: stdin_reads_append)
  moreover from f have "stdin_reads (io f) = stdin_reads (io s)"
    by (simp add: fetch_fields display_flush_fields)
  moreover from s' have "ir s' = ir f" by simp
  ultimately show ?thesis using c o by simp
qed

lemma main_loop_reads:
  "main_loop k s = Some (Inr (c, s')) \<Longrightarrow>
     (c = 0 \<and> stdin_reads (io s') = stdin_reads (io s)) \<or>
     (c = 1 \<and> stdin_reads (io s') = Suc (stdin_reads (io s)))"
proof (induction k arbitrary: s)
  case 0
  then show ?case by simp
next
  case (Suc k)
  show ?case
  proof (cases "MCR_POWER (mcr s) \<noteq> 0")
    case False
    with Suc.prems show ?thesis by simp
  next
    case True
    show ?thesis
    proof (cases "body s")
      case (Inl e)
      with True Suc.prems show ?thesis by simp
    next
      case (Inr r)
      show ?thesis
      proof (cases r)
        case (Continue t)
        with Inr True Suc.prems have "main_loop k t = Some (Inr (c, s'))" by simp
        from Suc.IH [OF this] body_Continue_reads [of s t] Inr Continue
        show ?thesis by simp
      next
        case (Return d t)
        with Inr True Suc.prems have "d = c" "t = s'" by simp_all
        with body_Return_reads [of s d t] Inr Return show ?thesis by simp
      qed
    qed
  qed
qed

lemma body_stdout:
  assumes "body s = Inr r"
  shows "stdout_of (io (state_of r)) =
    stdout_of (io s) @ (if display_status s = 0 then [ucast (display_data s AND 0xFF)] else [])"
proof -
  from assms obtain f where f: "fetch (display_flush s) = Inr f" and d: "dispatch f = Inr r"
    by (auto simp add: body_Inr_iff)
  have "stdout_of (io (state_of r)) = stdout_of (io f)"
  proof (cases r)
    case (Continue s')
    with d show ?thesis by (simp add: dispatch_Continue)
  next
    case (Return c s')
    with dispatch_Return [of f c s'] d show ?thesis by (simp add: stdout_of_append)
  qed
  also from f have "io f = io (display_flush s)" by (simp add: fetch_fields)
  also have "stdout_of (io (display_flush s)) =
    stdout_of (io s) @ (if display_status s = 0 then [ucast (display_data s AND 0xFF)] else [])"
    by (simp add: display_flush_eq stdout_of_append)
  finally show ?thesis .
qed

text \<open>Rewrite rules that evaluate the machine on a concrete state.\<close>

lemmas eval_simps = body_def display_flush_eq fetch_eq dispatch_op dispatch_fatal OPCODE_eq
  init_def loaded_def globals0_def MCR_POWER_iff
  addImm_eq addRegs_eq andImm_eq andRegs_eq br_eq ld_eq ldi_eq
  ldr_eq st_eq sti_eq str_eq lea_eq jsr_eq ret_eq trap_eq
  router_read_def router_write_def memory_at_eq memory_store_eq
  sign_ext_eq [symmetric] zero_ext_def field_A_def field_B_def field_C_def write_DR_def set_cc_def br_taken_def

subsection \<open>Register accesses\<close>

text \<open>
  C10.  The register fields that the handlers decode with \<open>REG1\<close>, \<open>REG2\<close>
  and \<open>REG3\<close> are masked to three bits: as indices they lie in \<open>0..7\<close>, below
  \<open>REG_COUNT\<close>.  Hence no pass through the loop body, and no call of the handler
  \<open>not\<close>, indexes \<open>regs\<close> outside its eight entries.
\<close>

theorem register_accesses_in_bounds:
  "(0 \<le> sint (ucast (REG1 w) :: 16 word) \<and> sint (ucast (REG1 w) :: 16 word) < REG_COUNT) \<and>
   (0 \<le> sint (ucast (REG2 w) :: 16 word) \<and> sint (ucast (REG2 w) :: 16 word) < REG_COUNT) \<and>
   (0 \<le> sint (ucast (REG3 w) :: 16 word) \<and> sint (ucast (REG3 w) :: 16 word) < REG_COUNT) \<and>
   body s \<noteq> Inl (RegsOutOfBounds i) \<and> not_instr s \<noteq> Inl (RegsOutOfBounds i)"
  by (simp add: macro_reg_bounds body_def handlers_no_regs_error
      ebind_no_regs_error fetch_no_regs_error dispatch_no_regs_error)

subsection \<open>Condition codes\<close>

text \<open>
  C6.  After initialisation Z is 1 and exactly one of N, Z, P is 1.  Every pass through
  the loop body that does not run into undefined behaviour keeps "exactly one of N, Z, P
  is 1".  After an instruction that sets the condition codes (ADD, AND, LD, LDI, LDR,
  LEA) the three flags are N = (DR < 0), Z = (DR = 0), P = (DR > 0) for the signed value
  of the destination register DR, field A of the instruction.  The same holds of the
  handler \<open>not\<close>, which \<open>main\<close> does not call.
\<close>

theorem condition_codes_exclusive:
  "(psr_z (init (loaded m a)) = 1 \<and> cc_exclusive (init (loaded m a))) \<and>
   (cc_exclusive s \<and> body s = Inr r \<longrightarrow> cc_exclusive (state_of r)) \<and>
   (body s = Inr (Continue s') \<and>
    (OPCODE (ir s') = ADD_OP \<or> OPCODE (ir s') = AND_OP \<or> OPCODE (ir s') = LD_OP \<or>
     OPCODE (ir s') = LDI_OP \<or> OPCODE (ir s') = LDR_OP \<or> OPCODE (ir s') = LEA_OP) \<longrightarrow>
      psr_n s' = of_bool (sint (regs s' (field_A (ir s'))) < 0) \<and>
      psr_z s' = of_bool (regs s' (field_A (ir s')) = 0) \<and>
      psr_p s' = of_bool (0 < sint (regs s' (field_A (ir s'))))) \<and>
   (not_instr t = Inr t' \<longrightarrow>
      cc_exclusive t' \<and>
      psr_n t' = of_bool (sint (regs t' (field_A (ir t))) < 0) \<and>
      psr_z t' = of_bool (regs t' (field_A (ir t)) = 0) \<and>
      psr_p t' = of_bool (0 < sint (regs t' (field_A (ir t)))))"
proof (intro conjI impI)
  show "psr_z (init (loaded m a)) = 1" "cc_exclusive (init (loaded m a))"
    using init_cc by simp_all
next
  assume "cc_exclusive s \<and> body s = Inr r"
  then show "cc_exclusive (state_of r)" using body_cc by blast
next
  assume a: "body s = Inr (Continue s') \<and>
    (OPCODE (ir s') = ADD_OP \<or> OPCODE (ir s') = AND_OP \<or> OPCODE (ir s') = LD_OP \<or>
     OPCODE (ir s') = LDI_OP \<or> OPCODE (ir s') = LDR_OP \<or> OPCODE (ir s') = LEA_OP)"
  then obtain f where d: "dispatch f = Inr (Continue s')" by (auto simp add: body_Inr_iff)
  then have i: "ir s' = ir f" by (simp add: dispatch_Continue)
  from a d cc_setting_flags [of f s']
  show "psr_n s' = of_bool (sint (regs s' (field_A (ir s'))) < 0)"
    "psr_z s' = of_bool (regs s' (field_A (ir s')) = 0)"
    "psr_p s' = of_bool (0 < sint (regs s' (field_A (ir s'))))"
    unfolding i by blast+
next
  assume "not_instr t = Inr t'"
  from not_instr_flags [OF this]
  show "cc_exclusive t'"
    "psr_n t' = of_bool (sint (regs t' (field_A (ir t))) < 0)"
    "psr_z t' = of_bool (regs t' (field_A (ir t)) = 0)"
    "psr_p t' = of_bool (0 < sint (regs t' (field_A (ir t))))"
    by simp_all
qed

theorem condition_codes_exclusive_witness:
  "cc_exclusive (init (loaded add_program 0x3000)) \<and>
   body (init (loaded add_program 0x3000)) =
     Inr (Continue ((init (loaded add_program 0x3000))\<lparr>ir := 0x103F, pc := 0x3001,
       regs := (\<lambda>_. 0)(0 := - 1), psr_z := 0, psr_n := 1, psr_p := 0\<rparr>)) \<and>
   OPCODE 0x103F = ADD_OP \<and>
   cc_exclusive ((init (loaded add_program 0x3000))\<lparr>ir := 0x103F, pc := 0x3001,
       regs := (\<lambda>_. 0)(0 := - 1), psr_z := 0, psr_n := 1, psr_p := 0\<rparr>) \<and>
   not_instr ((init (loaded add_program 0x3000))\<lparr>ir := 0x903F\<rparr>) =
     Inr ((init (loaded add_program 0x3000))\<lparr>ir := 0x903F,
       regs := (\<lambda>_. 0)(0 := - 1), psr_z := 0, psr_n := 1, psr_p := 0\<rparr>)"
  using condition_codes_exclusive [where m = add_program and a = "0x3000"
      and s = "init (loaded add_program 0x3000)"
      and r = "Continue ((init (loaded add_program 0x3000))\<lparr>ir := 0x103F, pc := 0x3001,
       regs := (\<lambda>_. 0)(0 := - 1), psr_z := 0, psr_n := 1, psr_p := 0\<rparr>)"
      and s' = "(init (loaded add_program 0x3000))\<lparr>ir := 0x103F, pc := 0x3001,
       regs := (\<lambda>_. 0)(0 := - 1), psr_z := 0, psr_n := 1, psr_p := 0\<rparr>"
      and t = "(init (loaded add_program 0x3000))\<lparr>ir := 0x903F\<rparr>"
      and t' = "(init (loaded add_program 0x3000))\<lparr>ir := 0x903F,
       regs := (\<lambda>_. 0)(0 := - 1), psr_z := 0, psr_n := 1, psr_p := 0\<rparr>"]
  by (simp add: eval_simps not_instr_eq add_program_def ADD_OP_def)

subsection \<open>Unsupported opcodes\<close>

text \<open>
  C8.  When the fetched instruction has opcode 8, 13 or 9, none of the \<open>case\<close>
  labels of the \<open>switch\<close> matches: the default branch prints the opcode and the
  (incremented) \<open>pc\<close> on the diagnostic stream and \<open>main\<close> returns 1.  No
  handler runs, and the loop does not come round again.
\<close>

theorem unsupported_opcode_fatal:
  "fetch (display_flush s) = Inr f \<and>
   (OPCODE (ir f) = 8 \<or> OPCODE (ir f) = 13 \<or> OPCODE (ir f) = 9) \<longrightarrow>
     body s = Inr (Return 1 (f\<lparr>io := io f @ [Stderr (ucast (OPCODE (ir f))) (pc f), Getchar]\<rparr>)) \<and>
     (MCR_POWER (mcr s) \<noteq> 0 \<longrightarrow>
        main_loop (Suc k) s =
          Some (Inr (1, f\<lparr>io := io f @ [Stderr (ucast (OPCODE (ir f))) (pc f), Getchar]\<rparr>)))"
proof (intro impI)
  assume a: "fetch (display_flush s) = Inr f \<and>
   (OPCODE (ir f) = 8 \<or> OPCODE (ir f) = 13 \<or> OPCODE (ir f) = 9)"
  then have "dispatch f =
      Inr (Return 1 (f\<lparr>io := io f @ [Stderr (ucast (OPCODE (ir f))) (pc f), Getchar]\<rparr>))"
    by (intro dispatch_fatal) blast
  with a have b: "body s =
      Inr (Return 1 (f\<lparr>io := io f @ [Stderr (ucast (OPCODE (ir f))) (pc f), Getchar]\<rparr>))"
    by (simp add: body_def)
  then show "body s = Inr (Return 1 (f\<lparr>io := io f @ [Stderr (ucast (OPCODE (ir f))) (pc f), Getchar]\<rparr>)) \<and>
     (MCR_POWER (mcr s) \<noteq> 0 \<longrightarrow>
        main_loop (Suc k) s =
          Some (Inr (1, f\<lparr>io := io f @ [Stderr (ucast (OPCODE (ir f))) (pc f), Getchar]\<rparr>)))"
    by simp
qed

theorem unsupported_opcode_fatal_witness:
  "fetch (display_flush (init (loaded reserved_program 0x3000))) =
     Inr ((init (loaded reserved_program 0x3000))\<lparr>ir := 0xD000, pc := 0x3001\<rparr>) \<and>
   OPCODE 0xD000 = 13 \<and>
   main_loop (Suc 0) (init (loaded reserved_program 0x3000)) =
     Some (Inr (1, (init (loaded reserved_program 0x3000))\<lparr>ir := 0xD000, pc := 0x3001,
       io := [Stderr 13 0x3001, Getchar]\<rparr>))"
  using unsupported_opcode_fatal [where s = "init (loaded reserved_program 0x3000)"
      and f = "(init (loaded reserved_program 0x3000))\<lparr>ir := 0xD000, pc := 0x3001\<rparr>" and k = 0]
  by (simp add: display_flush_eq fetch_eq OPCODE_eq init_def loaded_def globals0_def MCR_POWER_iff
      reserved_program_def)

subsection \<open>Halting through the machine control register\<close>

text \<open>
  C5.  When a pass through the loop body has executed a store (ST, STI or STR) that leaves
  bit 15 of \<open>mcr\<close> clear, the loop test fails the next time it is evaluated:
  \<open>main\<close> returns 0 in exactly the state the store left, with no further flush,
  fetch or instruction.
\<close>

theorem mcr_store_halts:
  "MCR_POWER (mcr s) \<noteq> 0 \<and> body s = Inr (Continue s') \<and>
   (OPCODE (ir s') = ST_OP \<or> OPCODE (ir s') = STI_OP \<or> OPCODE (ir s') = STR_OP) \<and>
   \<not> bit (mcr s') 15 \<longrightarrow>
     main_loop (Suc (Suc k)) s = Some (Inr (0, s'))"
  by (simp add: MCR_POWER_iff)

theorem mcr_store_halts_witness:
  "MCR_POWER (mcr (init (loaded halt_program 0x3000))) \<noteq> 0 \<and>
   body (init (loaded halt_program 0x3000)) =
     Inr (Continue ((init (loaded halt_program 0x3000))\<lparr>ir := 0xB000, pc := 0x3001, mcr := 0\<rparr>)) \<and>
   OPCODE 0xB000 = STI_OP \<and>
   main_loop (Suc (Suc 0)) (init (loaded halt_program 0x3000)) =
     Some (Inr (0, (init (loaded halt_program 0x3000))\<lparr>ir := 0xB000, pc := 0x3001, mcr := 0\<rparr>))"
  using mcr_store_halts [where s = "init (loaded halt_program 0x3000)"
      and s' = "(init (loaded halt_program 0x3000))\<lparr>ir := 0xB000, pc := 0x3001, mcr := 0\<rparr>"
      and k = 0]
  by (simp add: eval_simps halt_program_def STI_OP_def)

subsection \<open>Standard input\<close>

text \<open>
  C9, as stated: the simulator performs no read from standard input on any execution
  path, error termination included.  This fails: the default branch of the \<open>switch\<close>
  calls \<open>getchar()\<close> between the diagnostic and \<open>return 1\<close>.  A program
  whose first word has opcode 8 makes the run read standard input once.
\<close>

theorem stdin_read_counterexample:
  "run (Suc 0) rti_program 0x3000 =
     Some (Inr (1, (init (loaded rti_program 0x3000))\<lparr>ir := 0x8000, pc := 0x3001,
       io := [Stderr 8 0x3001, Getchar]\<rparr>)) \<and>
   stdin_reads (io ((init (loaded rti_program 0x3000))\<lparr>ir := 0x8000, pc := 0x3001,
       io := [Stderr 8 0x3001, Getchar]\<rparr>)) = 1"
  by (simp add: run_def eval_simps rti_program_def)

text \<open>
  C9, amended: \<open>init\<close> reads nothing from standard input; a pass through the loop
  body that continues the loop reads nothing; a pass that leaves \<open>main\<close> does so
  with status 1, on an opcode 8, 9 or 13, and reads standard input exactly once.  Hence a
  run that ends with status 0 has read nothing, and a run that ends with status 1 has
  read exactly one character.
\<close>

theorem stdin_read_only_on_fatal_path:
  "stdin_reads (io (init s0)) = stdin_reads (io s0) \<and>
   (body s1 = Inr (Continue s1') \<longrightarrow> stdin_reads (io s1') = stdin_reads (io s1)) \<and>
   (body s2 = Inr (Return c2 s2') \<longrightarrow>
      c2 = 1 \<and> (OPCODE (ir s2') = 8 \<or> OPCODE (ir s2') = 9 \<or> OPCODE (ir s2') = 13) \<and>
      stdin_reads (io s2') = Suc (stdin_reads (io s2))) \<and>
   (main_loop k s3 = Some (Inr (c3, s3')) \<longrightarrow>
      (c3 = 0 \<and> stdin_reads (io s3') = stdin_reads (io s3)) \<or>
      (c3 = 1 \<and> stdin_reads (io s3') = Suc (stdin_reads (io s3))))"
  using body_Continue_reads [of s1 s1'] body_Return_reads [of s2 c2 s2']
    main_loop_reads [of k s3 c3 s3']
  by (simp add: init_def)

theorem stdin_read_only_on_fatal_path_witness:
  "body (init (loaded halt_program 0x3000)) =
     Inr (Continue ((init (loaded halt_program 0x3000))\<lparr>ir := 0xB000, pc := 0x3001, mcr := 0\<rparr>)) \<and>
   body (init (loaded reserved_program 0x3000)) =
     Inr (Return 1 ((init (loaded reserved_program 0x3000))\<lparr>ir := 0xD000, pc := 0x3001,
       io := [Stderr 13 0x3001, Getchar]\<rparr>)) \<and>
   main_loop (Suc (Suc 0)) (init (loaded halt_program 0x3000)) =
     Some (Inr (0, (init (loaded halt_program 0x3000))\<lparr>ir := 0xB000, pc := 0x3001, mcr := 0\<rparr>)) \<and>
   stdin_reads (io ((init (loaded halt_program 0x3000))\<lparr>ir := 0xB000, pc := 0x3001, mcr := 0\<rparr>)) = 0 \<and>
   stdin_reads [Stderr 13 0x3001, Getchar] = Suc 0"
  using stdin_read_only_on_fatal_path [where ?s0.0 = "loaded halt_program 0x3000"
      and ?s1.0 = "init (loaded halt_program 0x3000)"
      and s1' = "(init (loaded halt_program 0x3000))\<lparr>ir := 0xB000, pc := 0x3001, mcr := 0\<rparr>"
      and ?s2.0 = "init (loaded reserved_program 0x3000)" and ?c2.0 = 1
      and s2' = "(init (loaded reserved_program 0x3000))\<lparr>ir := 0xD000, pc := 0x3001,
       io := [Stderr 13 0x3001, Getchar]\<rparr>"
      and k = "Suc (Suc 0)" and ?s3.0 = "init (loaded halt_program 0x3000)" and ?c3.0 = 0
      and s3' = "(init (loaded halt_program 0x3000))\<lparr>ir := 0xB000, pc := 0x3001, mcr := 0\<rparr>"]
  by (simp add: eval_simps halt_program_def reserved_program_def)

subsection \<open>Display output\<close>

text \<open>
  C4, as stated: one character is written to standard output per store to DDR, on the
  pass after the store, and no output is produced by any other means.  The last part
  fails: a store routed to DSR assigns \<open>display.status\<close>, and storing 0 there makes
  the next pass print \<open>display.data\<close> although nothing was stored to DDR.  Below,
  \<open>STI R0, #0\<close> with the pointer \<open>0xFE04\<close> and R0 = 0 is the only instruction
  executed before the character 0 appears on standard output.
\<close>

theorem output_without_ddr_store:
  "fetch (display_flush (init (loaded dsr_program 0x3000))) =
     Inr ((init (loaded dsr_program 0x3000))\<lparr>ir := 0xB000, pc := 0x3001\<rparr>) \<and>
   OPCODE 0xB000 = STI_OP \<and>
   router_read ((init (loaded dsr_program 0x3000))\<lparr>ir := 0xB000, pc := 0x3001\<rparr>)
     (0x3001 + sign_ext 9 0xB000) = Inr DSR \<and>
   DSR \<noteq> DDR \<and>
   body (init (loaded dsr_program 0x3000)) =
     Inr (Continue ((init (loaded dsr_program 0x3000))\<lparr>ir := 0xB000, pc := 0x3001,
       display_status := 0\<rparr>)) \<and>
   body ((init (loaded dsr_program 0x3000))\<lparr>ir := 0xB000, pc := 0x3001, display_status := 0\<rparr>) =
     Inr (Continue ((init (loaded dsr_program 0x3000))\<lparr>ir := 0xFE04, pc := 0,
       regs := (\<lambda>_. 0)(7 := 0x3002), io := [Stdout 0]\<rparr>)) \<and>
   stdout_of (io ((init (loaded dsr_program 0x3000))\<lparr>ir := 0xFE04, pc := 0,
       regs := (\<lambda>_. 0)(7 := 0x3002), io := [Stdout 0]\<rparr>)) = [0]"
  by (simp add: eval_simps device_consts STI_OP_def dsr_program_def)

text \<open>
  C4, amended: a store routed to DDR (by ST, STI or STR) sets \<open>display.data\<close> to
  the stored register and \<open>display.status\<close> to 0.  At the top of a pass through
  the loop body, if \<open>display.status\<close> is 0 the character
  \<open>display.data & 0xFF\<close> is written and \<open>display.status\<close> becomes
  \<open>0x8000\<close>; otherwise nothing is written.  A pass writes nothing else to standard
  output: what it adds is that one character when \<open>display.status\<close> was 0 at its
  top, whether a store to DDR or a store of 0 to DSR made it so, and nothing otherwise.
\<close>

theorem display_output:
  "(pc f1 + sign_ext 9 (ir f1) = DDR \<longrightarrow>
      st f1 = Inr (f1\<lparr>display_data := regs f1 (field_A (ir f1)), display_status := 0\<rparr>)) \<and>
   (router_read f2 (pc f2 + sign_ext 9 (ir f2)) = Inr DDR \<longrightarrow>
      sti f2 = Inr (f2\<lparr>display_data := regs f2 (field_A (ir f2)), display_status := 0\<rparr>)) \<and>
   (regs f3 (field_B (ir f3)) + sign_ext 6 (ir f3) = DDR \<longrightarrow>
      str f3 = Inr (f3\<lparr>display_data := regs f3 (field_A (ir f3)), display_status := 0\<rparr>)) \<and>
   display_flush s =
     (if display_status s = 0
      then s\<lparr>io := io s @ [Stdout (ucast (display_data s AND 0xFF))], display_status := 0x8000\<rparr>
      else s) \<and>
   (body s = Inr r \<longrightarrow>
      stdout_of (io (state_of r)) =
        stdout_of (io s) @ (if display_status s = 0 then [ucast (display_data s AND 0xFF)] else []))"
  using body_stdout [of s r]
  by (simp add: st_eq sti_eq str_eq router_write_def device_consts display_flush_eq)

theorem display_output_witness:
  "st (putc_start\<lparr>ir := 0x3000, pc := 0xFE06\<rparr>) =
     Inr (putc_start\<lparr>ir := 0x3000, pc := 0xFE06, display_data := 0x41, display_status := 0\<rparr>) \<and>
   router_read (putc_start\<lparr>ir := 0xB000, pc := 0x3001\<rparr>) (0x3001 + sign_ext 9 0xB000) = Inr DDR \<and>
   sti (putc_start\<lparr>ir := 0xB000, pc := 0x3001\<rparr>) = Inr putc_stored \<and>
   str (putc_start\<lparr>ir := 0x7040, regs := (\<lambda>_. 0)(0 := 0x41, 1 := 0xFE06)\<rparr>) =
     Inr (putc_start\<lparr>ir := 0x7040, regs := (\<lambda>_. 0)(0 := 0x41, 1 := 0xFE06),
            display_data := 0x41, display_status := 0\<rparr>) \<and>
   display_flush putc_stored = putc_stored\<lparr>io := [Stdout 0x41], display_status := 0x8000\<rparr> \<and>
   body putc_stored =
     Inr (Continue (putc_stored\<lparr>io := [Stdout 0x41], display_status := 0x8000, ir := 0xFE06,
       regs := (\<lambda>_. 0)(0 := 0x41, 7 := 0x3002), pc := 0\<rparr>)) \<and>
   stdout_of (io (putc_stored\<lparr>io := [Stdout 0x41], display_status := 0x8000, ir := 0xFE06,
       regs := (\<lambda>_. 0)(0 := 0x41, 7 := 0x3002), pc := 0\<rparr>)) = [0x41]"
  using display_output [where ?f1.0 = "putc_start\<lparr>ir := 0x3000, pc := 0xFE06\<rparr>"
      and ?f2.0 = "putc_start\<lparr>ir := 0xB000, pc := 0x3001\<rparr>"
      and ?f3.0 = "putc_start\<lparr>ir := 0x7040, regs := (\<lambda>_. 0)(0 := 0x41, 1 := 0xFE06)\<rparr>"
      and s = putc_stored
      and r = "Continue (putc_stored\<lparr>io := [Stdout 0x41], display_status := 0x8000, ir := 0xFE06,
       regs := (\<lambda>_. 0)(0 := 0x41, 7 := 0x3002), pc := 0\<rparr>)"]
  by (simp add: eval_simps device_consts putc_stored_def putc_start_def putc_program_def)

subsection \<open>PC-relative addressing\<close>

text \<open>
  C7.  The fetch increments \<open>pc\<close> before the handler runs, with wrap-around at
  \<open>2^16\<close>.  For BR, LD, LDI, ST, STI, LEA and JSR the branch target or effective
  address is (address of the instruction + 1) + the sign-extended offset (PCoffset9, for
  JSR PCoffset11); for LDI and STI this is the address of the pointer.
\<close>

theorem pc_relative_base:
  "fetch (display_flush s) = Inr f \<longrightarrow>
     pc f = pc s + 1 \<and>
     body s =
       (if OPCODE (ir f) = BR_OP
        then Inr (Continue (if br_taken f then f\<lparr>pc := (pc s + 1) + sign_ext 9 (ir f)\<rparr> else f))
        else if OPCODE (ir f) = LD_OP
        then continue (ebind (router_read f ((pc s + 1) + sign_ext 9 (ir f)))
               (\<lambda>v. Inr (write_DR f (field_A (ir f)) v)))
        else if OPCODE (ir f) = LDI_OP
        then continue (ebind (router_read f ((pc s + 1) + sign_ext 9 (ir f))) (\<lambda>ptr.
               ebind (router_read f ptr) (\<lambda>v. Inr (write_DR f (field_A (ir f)) v))))
        else if OPCODE (ir f) = ST_OP
        then continue (router_write f ((pc s + 1) + sign_ext 9 (ir f)) (regs f (field_A (ir f))))
        else if OPCODE (ir f) = STI_OP
        then continue (ebind (router_read f ((pc s + 1) + sign_ext 9 (ir f))) (\<lambda>ptr.
               router_write f ptr (regs f (field_A (ir f)))))
        else if OPCODE (ir f) = LEA_OP
        then Inr (Continue (write_DR f (field_A (ir f)) ((pc s + 1) + sign_ext 9 (ir f))))
        else if OPCODE (ir f) = JSR_OP
        then Inr (Continue (f\<lparr>regs := (regs f)(7 := pc s + 1),
                               pc := (pc s + 1) + sign_ext 11 (ir f)\<rparr>))
        else dispatch f)"
proof
  assume f: "fetch (display_flush s) = Inr f"
  have "pc (display_flush s) = pc s" by (simp add: display_flush_eq)
  with fetch_Inr(1) [OF f] have p: "pc f = pc s + 1" by simp
  have "body s = dispatch f" using f by (simp add: body_def)
  then show "pc f = pc s + 1 \<and> body s =
       (if OPCODE (ir f) = BR_OP
        then Inr (Continue (if br_taken f then f\<lparr>pc := (pc s + 1) + sign_ext 9 (ir f)\<rparr> else f))
        else if OPCODE (ir f) = LD_OP
        then continue (ebind (router_read f ((pc s + 1) + sign_ext 9 (ir f)))
               (\<lambda>v. Inr (write_DR f (field_A (ir f)) v)))
        else if OPCODE (ir f) = LDI_OP
        then continue (ebind (router_read f ((pc s + 1) + sign_ext 9 (ir f))) (\<lambda>ptr.
               ebind (router_read f ptr) (\<lambda>v. Inr (write_DR f (field_A (ir f)) v))))
        else if OPCODE (ir f) = ST_OP
        then continue (router_write f ((pc s + 1) + sign_ext 9 (ir f)) (regs f (field_A (ir f))))
        else if OPCODE (ir f) = STI_OP
        then continue (ebind (router_read f ((pc s + 1) + sign_ext 9 (ir f))) (\<lambda>ptr.
               router_write f ptr (regs f (field_A (ir f)))))
        else if OPCODE (ir f) = LEA_OP
        then Inr (Continue (write_DR f (field_A (ir f)) ((pc s + 1) + sign_ext 9 (ir f))))
        else if OPCODE (ir f) = JSR_OP
        then Inr (Continue (f\<lparr>regs := (regs f)(7 := pc s + 1),
                               pc := (pc s + 1) + sign_ext 11 (ir f)\<rparr>))
        else dispatch f)"
    unfolding p [symmetric] opcode_defs
    by (simp add: p dispatch_op br_eq ld_eq ldi_eq st_eq sti_eq lea_eq jsr_eq)
qed

theorem pc_relative_base_witness:
  "fetch (display_flush (init (loaded lea_program 0x3000))) =
     Inr ((init (loaded lea_program 0x3000))\<lparr>ir := 0xE1FF, pc := 0x3001\<rparr>) \<and>
   OPCODE 0xE1FF = LEA_OP \<and>
   body (init (loaded lea_program 0x3000)) =
     Inr (Continue ((init (loaded lea_program 0x3000))\<lparr>ir := 0xE1FF, pc := 0x3001,
       regs := (\<lambda>_. 0)(0 := 0x3000), psr_z := 0, psr_n := 0, psr_p := 1\<rparr>))"
  using pc_relative_base [where s = "init (loaded lea_program 0x3000)"
      and f = "(init (loaded lea_program 0x3000))\<lparr>ir := 0xE1FF, pc := 0x3001\<rparr>"]
  by (simp add: eval_simps opcode_defs lea_program_def)

subsection \<open>Indirect loads and stores\<close>

text \<open>
  Where \<open>ldi\<close> and \<open>sti\<close> are defined, they are the specification's double
  routing: the pointer is read through the router at \<open>pc + sign_ext 9 ir\<close>, and
  the final access goes through the router at the pointer.
\<close>

lemma router_read_defined:
  "router_read s a = Inr v \<Longrightarrow> v = spec_read s a"
  by (auto simp add: router_read_def spec_read_def memory_at_eq split: if_splits)

lemma router_write_defined:
  "router_write s a v = Inr s' \<Longrightarrow> s' = spec_write s a v"
  by (auto simp add: router_write_def spec_write_def memory_store_eq split: if_splits)

lemma router_read_low:
  "\<not> bit a 15 \<Longrightarrow> router_read s a = Inr (spec_read s a)"
  by (simp add: router_read_def spec_read_def memory_at_eq)

lemma router_high:
  assumes "bit a 15" and "a \<noteq> 0xFE04" and "a \<noteq> 0xFE06" and "a \<noteq> 0xFFFE"
  shows "router_read s a = Inl (MemoryOutOfBounds (sint a))"
    and "router_write s a v = Inl (MemoryOutOfBounds (sint a))"
  using assms by (simp_all add: router_read_def router_write_def memory_at_eq memory_store_eq)

lemma ldi_defined:
  assumes "ldi s = Inr s'"
  shows "s' = write_DR s (field_A (ir s)) (spec_read s (spec_read s (pc s + sign_ext 9 (ir s))))"
  using assms by (auto simp add: ldi_eq ebind_Inr_iff dest!: router_read_defined)

lemma sti_defined:
  assumes "sti s = Inr s'"
  shows "s' = spec_write s (spec_read s (pc s + sign_ext 9 (ir s))) (regs s (field_A (ir s)))"
  using assms
  by (auto simp add: sti_eq ebind_Inr_iff dest!: router_read_defined router_write_defined)

text \<open>
  C3.  The claim says that for every LDI and STI both the pointer fetch and the final
  access map DSR, DDR and MCR to the device registers and access RAM otherwise.  Both
  resolutions do compare the address with the three device addresses (lemmas
  \<open>ldi_eq\<close> and \<open>sti_eq\<close>), but "otherwise" is \<open>memory[addr]\<close> with an
  \<open>int16_t\<close> index.  With the pointer \<open>0x8000\<close> the final access of
  \<open>LDI R0, #0\<close> and of \<open>STI R0, #0\<close> is \<open>memory[-32768]\<close>, outside the
  array, and so is the pointer fetch when the pointer lies at \<open>0x8000\<close>: no RAM
  cell is accessed.
\<close>

theorem indirect_access_out_of_bounds:
  "run (Suc 0) ldi_high_program 0x3000 = Some (Inl (MemoryOutOfBounds (- 32768))) \<and>
   run (Suc 0) sti_high_program 0x3000 = Some (Inl (MemoryOutOfBounds (- 32768))) \<and>
   run (Suc 0) ldi_edge_program 0x7FFF = Some (Inl (MemoryOutOfBounds (- 32768))) \<and>
   run (Suc 0) sti_edge_program 0x7FFF = Some (Inl (MemoryOutOfBounds (- 32768)))"
  by (simp add: run_def eval_simps ldi_high_program_def sti_high_program_def
      ldi_edge_program_def sti_edge_program_def)

subsection \<open>Trap vectors\<close>

text \<open>
  C1.  The claim says that TRAP reads its vector at the zero-extended \<open>trapvect8\<close>.
  The macro \<open>TRPVECT8\<close> shifts the promoted instruction left and then right by 24
  as a signed \<open>int\<close>, which sign-extends bit 7.  For \<open>TRAP xFF\<close> the vector
  is \<open>-1\<close>, and \<open>memory[vect]\<close> is an access outside the array.  (For a vector
  below \<open>x80\<close> the handler does what the claim says: lemma \<open>trap_eq\<close>.)
\<close>

theorem trap_vector_sign_extended:
  "sint (ucast (TRPVECT8 0xF0FF) :: 16 word) = - 1 \<and>
   run (Suc 0) trap_program 0x3000 = Some (Inl (MemoryOutOfBounds (- 1)))"
  by (simp add: run_def eval_simps signed_take_bit_16 trap_program_def)

subsection \<open>Addresses with bit 15 set\<close>

text \<open>
  C2.  The claim says that every address other than DSR, DDR and MCR accesses that
  element of \<open>memory\<close>, in bounds.  The handlers index \<open>memory\<close> with an
  \<open>int16_t\<close>: an address with bit 15 set is a negative index.  \<open>LD R0, #0\<close> and
  \<open>ST R0, #0\<close> at \<open>0x7FFF\<close> access address \<open>0x8000\<close>, that is
  \<open>memory[-32768]\<close>.  (For an address below \<open>0x8000\<close> the access is the element
  at that address: lemmas \<open>memory_at_eq\<close> and \<open>memory_store_eq\<close>.)
\<close>

theorem high_address_out_of_bounds:
  "run (Suc 0) ld_high_program 0x7FFF = Some (Inl (MemoryOutOfBounds (- 32768))) \<and>
   run (Suc 0) st_high_program 0x7FFF = Some (Inl (MemoryOutOfBounds (- 32768)))"
  by (simp add: run_def eval_simps ld_high_program_def st_high_program_def)

end
